theory Spec2Isabelle
  imports Main
begin

section \<open>JavaScript values\<close>

text \<open>
  The handlers read \<^verbatim>\<open>event.ResourceProperties\<close> (typed \<^verbatim>\<open>any\<close>) and the
  responses of the SDK clients. Both are JSON-like values; \<open>JUndefined\<close> is what a
  missing property or an uninitialised \<^verbatim>\<open>let x!: string\<close> reads as. An object is an
  association list; the first binding of a key is the property. A number is given by
  what a handler can observe of it: whether it is falsy (0, -0 or NaN) and the string it
  converts to.
\<close>

datatype number = Number (falsy: bool) (rendering: string)

datatype jsval =
    JUndefined
  | JNull
  | JBool bool
  | JNum number
  | JStr string
  | JArr "jsval list"
  | JObj "(string \<times> jsval) list"

text \<open>The errors a handler can see or raise.\<close>

datatype exn =
    ClientFault string
    \<comment> \<open>the rejection of \<^verbatim>\<open>client.send(command)\<close>, by the name of the exception\<close>
  | TypeError
    \<comment> \<open>raised by the runtime: property read of undefined or null, iteration of a non-iterable\<close>
  | Error string
    \<comment> \<open>\<^verbatim>\<open>new Error(message)\<close> with a literal message\<close>
  | CreateDeploymentError jsval exn
    \<comment> \<open>the \<^verbatim>\<open>Error\<close> whose message interpolates \<^verbatim>\<open>target_arn\<close> and the caught error;
        an error object converts to a string without throwing\<close>

text \<open>Truthiness, as \<^verbatim>\<open>if (v)\<close> and \<^verbatim>\<open>!v\<close> see it.\<close>

fun truthy :: "jsval \<Rightarrow> bool" where
  "truthy JUndefined = False"
| "truthy JNull = False"
| "truthy (JBool b) = b"
| "truthy (JNum n) = (\<not> falsy n)"
| "truthy (JStr s) = (s \<noteq> [])"
| "truthy (JArr xs) = True"
| "truthy (JObj kvs) = True"

text \<open>\<^verbatim>\<open>a ?? b\<close>\<close>

fun nullish :: "jsval \<Rightarrow> jsval \<Rightarrow> jsval" where
  "nullish JUndefined d = d"
| "nullish JNull d = d"
| "nullish v d = v"

text \<open>
  \<^verbatim>\<open>v.key\<close> for the keys the handlers read, none of which is a name of
  \<^verbatim>\<open>Object.prototype\<close>, \<^verbatim>\<open>Array.prototype\<close> or \<^verbatim>\<open>String.prototype\<close>.
\<close>

fun member :: "jsval \<Rightarrow> string \<Rightarrow> exn + jsval" where
  "member JUndefined k = Inl TypeError"
| "member JNull k = Inl TypeError"
| "member (JObj kvs) k = Inr (case map_of kvs k of None \<Rightarrow> JUndefined | Some v \<Rightarrow> v)"
| "member v k = Inr JUndefined"

text \<open>The values \<^verbatim>\<open>for (const x of v)\<close> runs over: array elements, or the characters of a string.\<close>

fun iterate :: "jsval \<Rightarrow> exn + jsval list" where
  "iterate (JArr xs) = Inr xs"
| "iterate (JStr s) = Inr (map (\<lambda>c. JStr [c]) s)"
| "iterate v = Inl TypeError"

text \<open>
  String conversion, as a template literal \<^verbatim>\<open>`${v}`\<close> applies it. An object converts
  through its \<^verbatim>\<open>toString\<close> property: the inherited one gives "[object Object]"; an
  own property of that name is a JSON value, not a function, and then the conversion
  throws a TypeError. An array joins the conversions of its elements with commas, null
  and undefined elements giving the empty string.
\<close>

fun join_with :: "string \<Rightarrow> string list \<Rightarrow> string" where
  "join_with sep [] = []"
| "join_with sep [s] = s"
| "join_with sep (s # t # ss) = s @ sep @ join_with sep (t # ss)"

fun first_error :: "(exn + 'a) list \<Rightarrow> exn + 'a list" where
  "first_error [] = Inr []"
| "first_error (Inl e # rs) = Inl e"
| "first_error (Inr x # rs) = (case first_error rs of Inl e \<Rightarrow> Inl e | Inr xs \<Rightarrow> Inr (x # xs))"

fun to_string :: "jsval \<Rightarrow> exn + string" where
  "to_string JUndefined = Inr ''undefined''"
| "to_string JNull = Inr ''null''"
| "to_string (JBool b) = Inr (if b then ''true'' else ''false'')"
| "to_string (JNum n) = Inr (rendering n)"
| "to_string (JStr s) = Inr s"
| "to_string (JArr xs) =
     (case first_error
             (map (\<lambda>x. if x = JUndefined \<or> x = JNull then Inr [] else to_string x) xs) of
        Inl e \<Rightarrow> Inl e
      | Inr ss \<Rightarrow> Inr (join_with '','' ss))"
| "to_string (JObj kvs) =
     (if ''toString'' \<in> fst ` set kvs then Inl TypeError else Inr ''[object Object]'')"

section \<open>External calls and the handler monad\<close>

datatype client_id = IoTClient | SSMClient | GreengrassV2Client

datatype command =
    CreateRoleAliasCommand
  | DeleteRoleAliasCommand
  | CreateThingCommand
  | CreateKeysAndCertificateCommand
  | CreatePolicyCommand
  | AttachPolicyCommand
  | AttachThingPrincipalCommand
  | PutParameterCommand
  | DescribeEndpointCommand
  | DeleteParametersCommand
  | ListPolicyVersionsCommand
  | DeletePolicyVersionCommand
  | ListTargetsForPolicyCommand
  | DetachPolicyCommand
  | DeletePolicyCommand
  | ListPrincipalThingsCommand
  | DetachThingPrincipalCommand
  | ListAttachedPoliciesCommand
  | UpdateCertificateCommand
  | DeleteCertificateCommand
  | ListThingPrincipalsCommand
  | DeleteThingCommand
  | CreateThingGroupCommand
  | AddThingToThingGroupCommand
  | DeleteThingGroupCommand
  | CreateDeploymentCommand
  | CancelDeploymentCommand

text \<open>One \<^verbatim>\<open>client.send(new XCommand(input))\<close>.\<close>

datatype call = Call (via: client_id) (command: command) (input: jsval)

text \<open>
  The remote side: given the calls issued so far and the next call, it rejects or
  resolves with a response. Any deterministic fake client is such a function.
\<close>

type_synonym client = "call list \<Rightarrow> call \<Rightarrow> exn + jsval"

text \<open>What a handler changes outside its own variables: the calls issued and \<^verbatim>\<open>process.exitCode\<close>.\<close>

record world =
  trace :: "call list"
  exitCode :: "int option"

text \<open>
  The local variables of a function body, by name. A \<^verbatim>\<open>let x!: string\<close> without an
  initialiser reads as undefined until it is assigned.
\<close>

type_synonym vars = "string \<Rightarrow> jsval"

text \<open>
  A statement list: it ends normally with a value or throws, and in both cases leaves the
  variables and the world as they were at that point.
\<close>

type_synonym 'a prog = "vars \<Rightarrow> world \<Rightarrow> (exn + 'a) \<times> vars \<times> world"

definition ret :: "'a \<Rightarrow> 'a prog" where
  "ret x = (\<lambda>l w. (Inr x, l, w))"

definition throw :: "exn \<Rightarrow> 'a prog" where
  "throw e = (\<lambda>l w. (Inl e, l, w))"

definition bind :: "'a prog \<Rightarrow> ('a \<Rightarrow> 'b prog) \<Rightarrow> 'b prog" where
  "bind m f = (\<lambda>l w. case m l w of
                 (Inl e, l', w') \<Rightarrow> (Inl e, l', w')
               | (Inr x, l', w') \<Rightarrow> f x l' w')"

definition seq :: "'a prog \<Rightarrow> 'b prog \<Rightarrow> 'b prog" where
  "seq m n = bind m (\<lambda>_. n)"

definition try_catch :: "'a prog \<Rightarrow> (exn \<Rightarrow> 'a prog) \<Rightarrow> 'a prog" where
  "try_catch m h = (\<lambda>l w. case m l w of
                      (Inl e, l', w') \<Rightarrow> h e l' w'
                    | (Inr x, l', w') \<Rightarrow> (Inr x, l', w'))"

definition lift :: "exn + 'a \<Rightarrow> 'a prog" where
  "lift r = (\<lambda>l w. (r, l, w))"

definition assign :: "string \<Rightarrow> jsval \<Rightarrow> unit prog" where
  "assign x v = (\<lambda>l w. (Inr (), l(x := v), w))"

definition read :: "string \<Rightarrow> jsval prog" where
  "read x = (\<lambda>l w. (Inr (l x), l, w))"

definition send :: "client \<Rightarrow> call \<Rightarrow> jsval prog" where
  "send client c = (\<lambda>l w. (client (trace w) c, l, w\<lparr>trace := trace w @ [c]\<rparr>))"

definition set_exitCode :: "int \<Rightarrow> unit prog" where
  "set_exitCode n = (\<lambda>l w. (Inr (), l, w\<lparr>exitCode := Some n\<rparr>))"

text \<open>\<^verbatim>\<open>x = response.key\<close>\<close>

definition assign_member :: "string \<Rightarrow> jsval \<Rightarrow> string \<Rightarrow> unit prog" where
  "assign_member x response k = bind (lift (member response k)) (\<lambda>v. assign x v)"

text \<open>\<^verbatim>\<open>for (const x of v) body\<close>\<close>

fun for_each :: "jsval list \<Rightarrow> (jsval \<Rightarrow> unit prog) \<Rightarrow> unit prog" where
  "for_each [] body = ret ()"
| "for_each (x # xs) body = seq (body x) (for_each xs body)"

definition for_of :: "jsval \<Rightarrow> (jsval \<Rightarrow> unit prog) \<Rightarrow> unit prog" where
  "for_of v body = bind (lift (iterate v)) (\<lambda>xs. for_each xs body)"

text \<open>
  The evaluation of a template literal whose substitutions are these values, in order,
  where the string is only logged: it completes, or a conversion throws.
\<close>

fun template_literal :: "jsval list \<Rightarrow> unit prog" where
  "template_literal [] = ret ()"
| "template_literal (v # vs) = bind (lift (to_string v)) (\<lambda>_. template_literal vs)"

text \<open>A function body: its variables start at \<open>init\<close> and are gone when it returns.\<close>

definition run_body :: "vars \<Rightarrow> 'a prog \<Rightarrow> world \<Rightarrow> (exn + 'a) \<times> world" where
  "run_body init m = (\<lambda>w. case m init w of (r, l, w') \<Rightarrow> (r, w'))"

definition no_vars :: vars where
  "no_vars = (\<lambda>_. JUndefined)"

section \<open>Lifecycle events and responses\<close>

record event =
  RequestType :: string
  ResourceProperties :: "(string \<times> jsval) list"
  PhysicalResourceId :: jsval

record response =
  PhysicalResourceId :: jsval
  Data :: "(string \<times> jsval) list"

type_synonym handler = "client \<Rightarrow> event \<Rightarrow> world \<Rightarrow> (exn + response) \<times> world"

text \<open>\<^verbatim>\<open>event.ResourceProperties.key\<close>, also through destructuring.\<close>

definition resource_property :: "event \<Rightarrow> string \<Rightarrow> jsval" where
  "resource_property ev k = (case map_of (ResourceProperties ev) k of None \<Rightarrow> JUndefined | Some v \<Rightarrow> v)"

text \<open>\<^verbatim>\<open>event.ResourceProperties.FailCreate ?? false\<close> as a condition.\<close>

definition fail_create :: "event \<Rightarrow> bool" where
  "fail_create ev = truthy (nullish (resource_property ev ''FailCreate'') (JBool False))"

section \<open>Credential-exchange binding: role-alias-fn.ts\<close>

definition role_alias_onCreate :: handler where
  "role_alias_onCreate client ev =
     run_body (no_vars(''physical_resource_id'' := JStr []))
      (if fail_create ev then throw (Error ''Create failure requested, logging'')
       else
         (let role_alias = resource_property ev ''IotRoleAliasName'';
              role_arn = resource_property ev ''IamRoleArn''
          in seq
            (try_catch
               (bind (send client (Call IoTClient CreateRoleAliasCommand
                        (JObj [(''roleAlias'', role_alias), (''roleArn'', role_arn)]))) (\<lambda>response.
                seq (assign_member ''role_alias_arn'' response ''roleAliasArn'')
                    (assign_member ''physical_resource_id'' response ''roleAlias'')))
               (\<lambda>error. set_exitCode 1))
            (bind (read ''physical_resource_id'') (\<lambda>physical_resource_id.
             bind (read ''role_alias_arn'') (\<lambda>role_alias_arn.
             ret \<lparr>PhysicalResourceId = physical_resource_id,
                  Data = [(''RoleAliasArn'', role_alias_arn)]\<rparr>)))))"

definition role_alias_onUpdate :: handler where
  "role_alias_onUpdate client ev =
     run_body no_vars
      (let role_alias = resource_property ev ''IotRoleAliasName'';
           physical_resource_id = event.PhysicalResourceId ev
       in ret \<lparr>PhysicalResourceId = physical_resource_id, Data = []\<rparr>)"

definition role_alias_onDelete :: handler where
  "role_alias_onDelete client ev =
     run_body no_vars
      (let role_alias = resource_property ev ''IotRoleAliasName'';
           physical_resource_id = event.PhysicalResourceId ev
       in seq
         (try_catch
            (bind (send client (Call IoTClient DeleteRoleAliasCommand
                     (JObj [(''roleAlias'', role_alias)]))) (\<lambda>_. ret ()))
            (\<lambda>error. ret ()))
         (ret \<lparr>PhysicalResourceId = physical_resource_id, Data = []\<rparr>))"

text \<open>
  The dispatcher. The \<^verbatim>\<open>async\<close> handler returns the promise of the branch it took, so
  it resolves or rejects as that branch does.
\<close>

definition role_alias_handler :: handler where
  "role_alias_handler client ev =
     (if RequestType ev = ''Create'' then role_alias_onCreate client ev
      else if RequestType ev = ''Update'' then role_alias_onUpdate client ev
      else if RequestType ev = ''Delete'' then role_alias_onDelete client ev
      else run_body no_vars (throw (Error ''Invalid request type'')))"

section \<open>Fleet deployment: greengrass-v2-deployment-fn.ts\<close>

text \<open>
  A \<^verbatim>\<open>console\<close> call whose message is a template literal is modelled by the
  evaluation of that literal, which can throw; a \<^verbatim>\<open>console\<close> call on plain
  arguments does nothing a handler can observe and is left out.
\<close>

definition greengrass_v2_deployment_onCreate :: handler where
  "greengrass_v2_deployment_onCreate client ev =
     run_body (no_vars(''physical_resource_id'' := JStr []))
      (if fail_create ev then throw (Error ''Create failure requested, logging'')
       else
         (let target_arn = resource_property ev ''TargetArn'';
              deployment_name = resource_property ev ''DeploymentName'';
              components = resource_property ev ''Components''
          in seq
            (try_catch
               (bind (send client (Call GreengrassV2Client CreateDeploymentCommand
                        (JObj [(''targetArn'', target_arn),
                               (''deploymentName'', deployment_name),
                               (''components'', components)]))) (\<lambda>response.
                seq (assign_member ''deployment_id'' response ''deploymentId'')
               (seq (assign_member ''iot_job_id'' response ''iotJobId'')
               (seq (assign_member ''iot_job_arn'' response ''iotJobArn'')
                    (assign_member ''physical_resource_id'' response ''deploymentId'')))))
               (\<lambda>error. seq (template_literal [target_arn])
                             (throw (CreateDeploymentError target_arn error))))
            (bind (read ''physical_resource_id'') (\<lambda>physical_resource_id.
             bind (read ''deployment_id'') (\<lambda>deployment_id.
             bind (read ''iot_job_id'') (\<lambda>iot_job_id.
             bind (read ''iot_job_arn'') (\<lambda>iot_job_arn.
             ret \<lparr>PhysicalResourceId = physical_resource_id,
                  Data = [(''DeploymentId'', deployment_id),
                          (''IotJobId'', iot_job_id),
                          (''IotJobArn'', iot_job_arn)]\<rparr>)))))))"

definition greengrass_v2_deployment_onUpdate :: handler where
  "greengrass_v2_deployment_onUpdate client ev =
     run_body no_vars
      (let deployment_id = resource_property ev ''DeploymentId'';
           physical_resource_id = event.PhysicalResourceId ev
       in ret \<lparr>PhysicalResourceId = physical_resource_id, Data = []\<rparr>)"

definition greengrass_v2_deployment_onDelete :: handler where
  "greengrass_v2_deployment_onDelete client ev =
     run_body no_vars
      (let deployment_id = resource_property ev ''DeploymentId'';
           physical_resource_id = event.PhysicalResourceId ev
       in seq
         (try_catch
            (bind (send client (Call GreengrassV2Client CancelDeploymentCommand
                     (JObj [(''deploymentId'', deployment_id)]))) (\<lambda>response.
             template_literal [deployment_id]))
            (\<lambda>error. template_literal [deployment_id]))
        (seq (template_literal [deployment_id])
             (ret \<lparr>PhysicalResourceId = physical_resource_id, Data = []\<rparr>)))"

definition greengrass_v2_deployment_handler :: handler where
  "greengrass_v2_deployment_handler client ev =
     (if RequestType ev = ''Create'' then greengrass_v2_deployment_onCreate client ev
      else if RequestType ev = ''Update'' then greengrass_v2_deployment_onUpdate client ev
      else if RequestType ev = ''Delete'' then greengrass_v2_deployment_onDelete client ev
      else run_body no_vars (throw (Error ''Invalid request type'')))"

section \<open>Device group membership: thing-group-fn.ts\<close>

text \<open>Create AWS IoT thing group\<close>

definition create_thing_group_block :: "client \<Rightarrow> jsval \<Rightarrow> jsval \<Rightarrow> unit prog" where
  "create_thing_group_block client group_name group_description =
     try_catch
       (bind (send client (Call IoTClient CreateThingGroupCommand
                (JObj [(''thingGroupName'', group_name),
                       (''thingGroupProperties'',
                          JObj [(''thingGroupDescription'', group_description)])]))) (\<lambda>response.
        seq (assign_member ''group_arn'' response ''thingGroupArn'')
       (seq (assign_member ''group_id'' response ''thingGroupId'')
            (bind (read ''group_id'') (\<lambda>group_id.
             assign ''physical_resource_id'' group_id)))))
       (\<lambda>error. set_exitCode 1)"

text \<open>Add things to group\<close>

definition add_thing_call :: "jsval \<Rightarrow> jsval \<Rightarrow> call" where
  "add_thing_call group_name thing =
     Call IoTClient AddThingToThingGroupCommand
       (JObj [(''thingGroupName'', group_name), (''thingArn'', thing)])"

definition add_things_block :: "client \<Rightarrow> jsval \<Rightarrow> jsval \<Rightarrow> unit prog" where
  "add_things_block client group_name thing_list =
     try_catch
       (for_of thing_list (\<lambda>thing.
          bind (send client (add_thing_call group_name thing)) (\<lambda>_. ret ())))
       (\<lambda>error. seq (template_literal [thing_list, group_name]) (set_exitCode 1))"

definition thing_group_onCreate :: handler where
  "thing_group_onCreate client ev =
     run_body (no_vars(''physical_resource_id'' := JStr []))
      (if fail_create ev then throw (Error ''Create failure requested, logging'')
       else
         (let group_name = resource_property ev ''ThingGroupName'';
              group_description = resource_property ev ''ThingGroupDescription'';
              thing_list = resource_property ev ''ThingArnList''
          in seq (create_thing_group_block client group_name group_description)
            (seq (add_things_block client group_name thing_list)
            (bind (read ''physical_resource_id'') (\<lambda>physical_resource_id.
             bind (read ''group_arn'') (\<lambda>group_arn.
             bind (read ''group_id'') (\<lambda>group_id.
             ret \<lparr>PhysicalResourceId = physical_resource_id,
                  Data = [(''ThingGroupName'', group_name),
                          (''ThingGroupArn'', group_arn),
                          (''ThingGroupId'', group_id)]\<rparr>)))))))"

definition thing_group_onUpdate :: handler where
  "thing_group_onUpdate client ev =
     run_body no_vars
      (let group_name = resource_property ev ''ThingGroupName'';
           physical_resource_id = event.PhysicalResourceId ev
       in ret \<lparr>PhysicalResourceId = physical_resource_id, Data = []\<rparr>)"

definition thing_group_onDelete :: handler where
  "thing_group_onDelete client ev =
     run_body no_vars
      (let group_name = resource_property ev ''ThingGroupName'';
           physical_resource_id = event.PhysicalResourceId ev
       in seq
         (try_catch
            (bind (send client (Call IoTClient DeleteThingGroupCommand
                     (JObj [(''thingGroupName'', group_name)]))) (\<lambda>_. ret ()))
            (\<lambda>error. template_literal [group_name]))
         (ret \<lparr>PhysicalResourceId = physical_resource_id, Data = []\<rparr>))"

definition thing_group_handler :: handler where
  "thing_group_handler client ev =
     (if RequestType ev = ''Create'' then thing_group_onCreate client ev
      else if RequestType ev = ''Update'' then thing_group_onUpdate client ev
      else if RequestType ev = ''Delete'' then thing_group_onDelete client ev
      else run_body no_vars (throw (Error ''Invalid request type'')))"

section \<open>Device identity bundle: thing-cert-policy-fn.ts\<close>

text \<open>
  The handler of the IotThingCertPolicy construct (the second listing under
  role-alias-fn.ts). Each try block of the source is one definition here, named after
  the comment that introduces it. The catch clauses log, and those of onCreate then set
  \<^verbatim>\<open>process.exitCode = 1\<close>; where the logged message is a template literal, its
  evaluation is part of the catch clause.
\<close>

subsection \<open>The try blocks of onCreate, in source order\<close>

text \<open>Create IoT thing\<close>

definition create_thing_block :: "client \<Rightarrow> jsval \<Rightarrow> unit prog" where
  "create_thing_block client thing_name =
     try_catch
       (bind (send client (Call IoTClient CreateThingCommand
                (JObj [(''thingName'', thing_name)]))) (\<lambda>response.
        assign_member ''thing_arn'' response ''thingArn''))
       (\<lambda>error. set_exitCode 1)"

text \<open>Create IoT certificate and keys\<close>

definition create_keys_block :: "client \<Rightarrow> unit prog" where
  "create_keys_block client =
     try_catch
       (bind (send client (Call IoTClient CreateKeysAndCertificateCommand
                (JObj [(''setAsActive'', JBool True)]))) (\<lambda>response.
        seq (assign_member ''certificate_arn'' response ''certificateArn'')
       (seq (assign_member ''certificate_pem'' response ''certificatePem'')
       (seq (assign_member ''physical_resource_id'' response ''certificateId'')
            (bind (lift (member response ''keyPair'')) (\<lambda>keyPair.
             assign_member ''private_key'' keyPair ''PrivateKey''))))))
       (\<lambda>error. set_exitCode 1)"

text \<open>Create IoT policy\<close>

definition create_policy_block :: "client \<Rightarrow> jsval \<Rightarrow> jsval \<Rightarrow> unit prog" where
  "create_policy_block client policy_document policy_name =
     try_catch
       (bind (send client (Call IoTClient CreatePolicyCommand
                (JObj [(''policyDocument'', policy_document),
                       (''policyName'', policy_name)]))) (\<lambda>response.
        assign_member ''policy_arn'' response ''policyArn''))
       (\<lambda>error. set_exitCode 1)"

text \<open>Attach certificate and policy\<close>

definition attach_policy_block :: "client \<Rightarrow> jsval \<Rightarrow> unit prog" where
  "attach_policy_block client policy_name =
     try_catch
       (bind (read ''certificate_arn'') (\<lambda>certificate_arn.
        bind (send client (Call IoTClient AttachPolicyCommand
                (JObj [(''policyName'', policy_name),
                       (''target'', certificate_arn)]))) (\<lambda>_. ret ())))
       (\<lambda>error. bind (read ''certificate_arn'') (\<lambda>certificate_arn.
                 seq (template_literal [certificate_arn, policy_name]) (set_exitCode 1)))"

text \<open>Attach thing and certificate\<close>

definition attach_thing_principal_block :: "client \<Rightarrow> jsval \<Rightarrow> unit prog" where
  "attach_thing_principal_block client thing_name =
     try_catch
       (bind (read ''certificate_arn'') (\<lambda>certificate_arn.
        bind (send client (Call IoTClient AttachThingPrincipalCommand
                (JObj [(''thingName'', thing_name),
                       (''principal'', certificate_arn)]))) (\<lambda>_. ret ())))
       (\<lambda>error. bind (read ''certificate_arn'') (\<lambda>certificate_arn.
                 seq (template_literal [certificate_arn, thing_name]) (set_exitCode 1)))"

text \<open>Store certificate and private key in SSM param store\<close>

definition private_key_parameter :: "string \<Rightarrow> jsval \<Rightarrow> jsval \<Rightarrow> jsval" where
  "private_key_parameter thing_text parameter_private_key private_key =
     JObj [(''Name'', parameter_private_key),
           (''Description'', JStr (''Certificate private key for IoT thing '' @ thing_text)),
           (''Value'', private_key),
           (''Type'', JStr ''SecureString''),
           (''Tier'', JStr ''Advanced'')]"

definition certificate_pem_parameter :: "string \<Rightarrow> jsval \<Rightarrow> jsval \<Rightarrow> jsval" where
  "certificate_pem_parameter thing_text parameter_certificate_pem certificate_pem =
     JObj [(''Name'', parameter_certificate_pem),
           (''Description'', JStr (''Certificate PEM for IoT thing '' @ thing_text)),
           (''Value'', certificate_pem),
           (''Type'', JStr ''String''),
           (''Tier'', JStr ''Advanced'')]"

text \<open>
  Each input object is built, its Description converting \<^verbatim>\<open>thing_name\<close> to a string,
  right before it is sent.
\<close>

definition put_parameters_block :: "client \<Rightarrow> jsval \<Rightarrow> jsval \<Rightarrow> jsval \<Rightarrow> unit prog" where
  "put_parameters_block client thing_name parameter_private_key parameter_certificate_pem =
     try_catch
       (bind (lift (to_string thing_name)) (\<lambda>thing_text.
        bind (read ''private_key'') (\<lambda>private_key.
        bind (send client (Call SSMClient PutParameterCommand
                (private_key_parameter thing_text parameter_private_key private_key))) (\<lambda>_.
        bind (lift (to_string thing_name)) (\<lambda>thing_text.
        bind (read ''certificate_pem'') (\<lambda>certificate_pem.
        bind (send client (Call SSMClient PutParameterCommand
                (certificate_pem_parameter thing_text parameter_certificate_pem
                   certificate_pem))) (\<lambda>_. ret ())))))))
       (\<lambda>error. set_exitCode 1)"

text \<open>Get the IoT-Data endpoint\<close>

definition data_endpoint_block :: "client \<Rightarrow> unit prog" where
  "data_endpoint_block client =
     try_catch
       (bind (send client (Call IoTClient DescribeEndpointCommand
                (JObj [(''endpointType'', JStr ''iot:Data-ATS'')]))) (\<lambda>response.
        assign_member ''data_ats_endpoint_address'' response ''endpointAddress''))
       (\<lambda>error. assign ''data_ats_endpoint_address'' (JStr ''stack_error: see log files''))"

text \<open>Get the Credential Provider endpoint\<close>

definition credential_endpoint_block :: "client \<Rightarrow> unit prog" where
  "credential_endpoint_block client =
     try_catch
       (bind (send client (Call IoTClient DescribeEndpointCommand
                (JObj [(''endpointType'', JStr ''iot:CredentialProvider'')]))) (\<lambda>response.
        assign_member ''credential_provider_endpoint_address'' response ''endpointAddress''))
       (\<lambda>error. assign ''credential_provider_endpoint_address''
                   (JStr ''stack_error: see log files''))"

text \<open>
  \<^verbatim>\<open>`/${stack_name}/${thing_name}/private_key`\<close> and its sibling. Both handlers
  evaluate them before their first try block.
\<close>

definition parameter_name :: "jsval \<Rightarrow> jsval \<Rightarrow> string \<Rightarrow> exn + jsval" where
  "parameter_name stack_name thing_name leaf =
     (case to_string stack_name of
        Inl e \<Rightarrow> Inl e
      | Inr stack_text \<Rightarrow>
          (case to_string thing_name of
             Inl e \<Rightarrow> Inl e
           | Inr thing_text \<Rightarrow> Inr (JStr (''/'' @ stack_text @ ''/'' @ thing_text @ ''/'' @ leaf))))"

text \<open>The \<^verbatim>\<open>return\<close> statement of onCreate.\<close>

definition create_result :: "jsval \<Rightarrow> jsval \<Rightarrow> jsval \<Rightarrow> response prog" where
  "create_result thing_name parameter_private_key parameter_certificate_pem =
     bind (read ''physical_resource_id'') (\<lambda>physical_resource_id.
     bind (read ''thing_arn'') (\<lambda>thing_arn.
     bind (read ''certificate_arn'') (\<lambda>certificate_arn.
     bind (read ''policy_arn'') (\<lambda>policy_arn.
     bind (read ''data_ats_endpoint_address'') (\<lambda>data_ats_endpoint_address.
     bind (read ''credential_provider_endpoint_address'') (\<lambda>credential_provider_endpoint_address.
     ret \<lparr>PhysicalResourceId = physical_resource_id,
          Data = [(''ThingArn'', thing_arn),
                  (''ThingName'', thing_name),
                  (''CertificateArn'', certificate_arn),
                  (''IotPolicyArn'', policy_arn),
                  (''PrivateKeySecretParameter'', parameter_private_key),
                  (''CertificatePemParameter'', parameter_certificate_pem),
                  (''DataAtsEndpointAddress'', data_ats_endpoint_address),
                  (''CredentialProviderEndpointAddress'',
                     credential_provider_endpoint_address)]\<rparr>))))))"

text \<open>The try blocks of onCreate's else branch that come before the additional data.\<close>

definition thing_cert_policy_required_steps ::
  "client \<Rightarrow> jsval \<Rightarrow> jsval \<Rightarrow> jsval \<Rightarrow> jsval \<Rightarrow> jsval \<Rightarrow> unit prog" where
  "thing_cert_policy_required_steps client thing_name policy_name policy_document
       parameter_private_key parameter_certificate_pem =
     seq (create_thing_block client thing_name)
    (seq (create_keys_block client)
    (seq (create_policy_block client policy_document policy_name)
    (seq (attach_policy_block client policy_name)
    (seq (attach_thing_principal_block client thing_name)
         (put_parameters_block client thing_name
            parameter_private_key parameter_certificate_pem)))))"

text \<open>
  Additional data - these calls and responses are used in other constructs or external
  applications; then the \<^verbatim>\<open>return\<close>.
\<close>

definition thing_cert_policy_additional_data ::
  "client \<Rightarrow> jsval \<Rightarrow> jsval \<Rightarrow> jsval \<Rightarrow> response prog" where
  "thing_cert_policy_additional_data client thing_name
       parameter_private_key parameter_certificate_pem =
     seq (data_endpoint_block client)
    (seq (credential_endpoint_block client)
         (create_result thing_name parameter_private_key parameter_certificate_pem))"

definition thing_cert_policy_onCreate :: handler where
  "thing_cert_policy_onCreate client ev =
     run_body (no_vars(''physical_resource_id'' := JStr []))
      (if fail_create ev then throw (Error ''Create failure requested, logging'')
       else
         (let thing_name = resource_property ev ''ThingName'';
              policy_name = resource_property ev ''IotPolicyName'';
              policy_document = resource_property ev ''IotPolicy'';
              stack_name = resource_property ev ''StackName''
          in bind (lift (parameter_name stack_name thing_name ''private_key''))
               (\<lambda>parameter_private_key.
             bind (lift (parameter_name stack_name thing_name ''certificate_pem''))
               (\<lambda>parameter_certificate_pem.
             seq (thing_cert_policy_required_steps client thing_name policy_name
                    policy_document parameter_private_key parameter_certificate_pem)
                 (thing_cert_policy_additional_data client thing_name
                    parameter_private_key parameter_certificate_pem)))))"

definition thing_cert_policy_onUpdate :: handler where
  "thing_cert_policy_onUpdate client ev =
     run_body no_vars
      (let thing_name = resource_property ev ''ThingName'';
           physical_resource_id = event.PhysicalResourceId ev
       in ret \<lparr>PhysicalResourceId = physical_resource_id, Data = []\<rparr>)"

subsection \<open>The try blocks of onDelete, in source order\<close>

text \<open>Delete certificate and private key from SSM param store\<close>

definition delete_parameters_block :: "client \<Rightarrow> jsval \<Rightarrow> jsval \<Rightarrow> unit prog" where
  "delete_parameters_block client parameter_private_key parameter_certificate_pem =
     try_catch
       (bind (send client (Call SSMClient DeleteParametersCommand
                (JObj [(''Names'', JArr [parameter_private_key, parameter_certificate_pem])])))
             (\<lambda>_. ret ()))
       (\<lambda>error. ret ())"

text \<open>Delete all non active policy versions\<close>

definition prune_policy_versions_block :: "client \<Rightarrow> jsval \<Rightarrow> unit prog" where
  "prune_policy_versions_block client policy_name =
     try_catch
       (bind (send client (Call IoTClient ListPolicyVersionsCommand
                (JObj [(''policyName'', policy_name)]))) (\<lambda>response.
        bind (lift (member response ''policyVersions'')) (\<lambda>policyVersions.
        for_of policyVersions (\<lambda>version.
          bind (lift (member version ''isDefaultVersion'')) (\<lambda>isDefaultVersion.
          if \<not> truthy isDefaultVersion then
            bind (lift (member version ''versionId'')) (\<lambda>versionId.
            bind (send client (Call IoTClient DeletePolicyVersionCommand
                    (JObj [(''policyName'', policy_name),
                           (''policyVersionId'', versionId)]))) (\<lambda>_. ret ()))
          else ret ())))))
       (\<lambda>error. template_literal [policy_name])"

text \<open>Detach any principals\<close>

definition detach_policy_targets_block :: "client \<Rightarrow> jsval \<Rightarrow> unit prog" where
  "detach_policy_targets_block client policy_name =
     try_catch
       (bind (send client (Call IoTClient ListTargetsForPolicyCommand
                (JObj [(''policyName'', policy_name)]))) (\<lambda>response.
        bind (lift (member response ''targets'')) (\<lambda>targets.
        for_of targets (\<lambda>target.
          bind (send client (Call IoTClient DetachPolicyCommand
                  (JObj [(''policyName'', policy_name), (''target'', target)])))
               (\<lambda>_. ret ())))))
       (\<lambda>error. template_literal [policy_name])"

text \<open>Delete policy\<close>

definition delete_policy_block :: "client \<Rightarrow> jsval \<Rightarrow> unit prog" where
  "delete_policy_block client policy_name =
     try_catch
       (bind (send client (Call IoTClient DeletePolicyCommand
                (JObj [(''policyName'', policy_name)]))) (\<lambda>_. ret ()))
       (\<lambda>error. template_literal [policy_name])"

text \<open>Detach all policies and things from cert\<close>

definition detach_certificate_block :: "client \<Rightarrow> jsval \<Rightarrow> jsval \<Rightarrow> unit prog" where
  "detach_certificate_block client certificate_arn thing_name =
     try_catch
       (bind (send client (Call IoTClient ListPrincipalThingsCommand
                (JObj [(''principal'', certificate_arn)]))) (\<lambda>response.
        bind (lift (member response ''things'')) (\<lambda>things.
        seq (for_of things (\<lambda>thing.
               bind (send client (Call IoTClient DetachThingPrincipalCommand
                       (JObj [(''thingName'', thing_name), (''principal'', certificate_arn)])))
                    (\<lambda>_. ret ())))
       (bind (send client (Call IoTClient ListAttachedPoliciesCommand
                (JObj [(''target'', certificate_arn)]))) (\<lambda>response.
        bind (lift (member response ''policies'')) (\<lambda>policies.
        for_of policies (\<lambda>policy.
          bind (lift (member policy ''policyName'')) (\<lambda>policyName.
          bind (send client (Call IoTClient DetachPolicyCommand
                  (JObj [(''policyName'', policyName), (''target'', certificate_arn)])))
               (\<lambda>_. ret ())))))))))
       (\<lambda>error. template_literal [certificate_arn])"

text \<open>Revoke and delete the certificate\<close>

definition delete_certificate_block :: "client \<Rightarrow> jsval \<Rightarrow> jsval \<Rightarrow> unit prog" where
  "delete_certificate_block client certificate_arn physical_resource_id =
     try_catch
       (bind (send client (Call IoTClient UpdateCertificateCommand
                (JObj [(''certificateId'', physical_resource_id),
                       (''newStatus'', JStr ''REVOKED'')]))) (\<lambda>_.
        bind (send client (Call IoTClient DeleteCertificateCommand
                (JObj [(''certificateId'', physical_resource_id)]))) (\<lambda>_. ret ())))
       (\<lambda>error. template_literal [certificate_arn])"

text \<open>Check and detach principals attached to thing\<close>

definition detach_thing_principals_block :: "client \<Rightarrow> jsval \<Rightarrow> unit prog" where
  "detach_thing_principals_block client thing_name =
     try_catch
       (bind (send client (Call IoTClient ListThingPrincipalsCommand
                (JObj [(''thingName'', thing_name)]))) (\<lambda>response.
        bind (lift (member response ''principals'')) (\<lambda>principals.
        for_of principals (\<lambda>principal.
          bind (send client (Call IoTClient DetachThingPrincipalCommand
                  (JObj [(''thingName'', thing_name), (''principal'', principal)])))
               (\<lambda>_. ret ())))))
       (\<lambda>error. template_literal [thing_name])"

text \<open>Delete thing\<close>

definition delete_thing_block :: "client \<Rightarrow> jsval \<Rightarrow> unit prog" where
  "delete_thing_block client thing_name =
     try_catch
       (bind (send client (Call IoTClient DeleteThingCommand
                (JObj [(''thingName'', thing_name)]))) (\<lambda>_. ret ()))
       (\<lambda>error. template_literal [thing_name])"

text \<open>The try blocks that come before the deletion of the thing.\<close>

definition thing_cert_policy_unwind ::
  "client \<Rightarrow> jsval \<Rightarrow> jsval \<Rightarrow> jsval \<Rightarrow> jsval \<Rightarrow> jsval \<Rightarrow> jsval \<Rightarrow> unit prog" where
  "thing_cert_policy_unwind client certificate_arn thing_name policy_name physical_resource_id
       parameter_private_key parameter_certificate_pem =
     seq (delete_parameters_block client parameter_private_key parameter_certificate_pem)
    (seq (prune_policy_versions_block client policy_name)
    (seq (detach_policy_targets_block client policy_name)
    (seq (delete_policy_block client policy_name)
    (seq (detach_certificate_block client certificate_arn thing_name)
    (seq (delete_certificate_block client certificate_arn physical_resource_id)
         (detach_thing_principals_block client thing_name))))))"

definition thing_cert_policy_onDelete :: handler where
  "thing_cert_policy_onDelete client ev =
     run_body no_vars
      (let certificate_arn = resource_property ev ''CertificateArn'';
           thing_name = resource_property ev ''ThingName'';
           policy_name = resource_property ev ''IotPolicyName'';
           stack_name = resource_property ev ''StackName'';
           physical_resource_id = event.PhysicalResourceId ev
       in bind (lift (parameter_name stack_name thing_name ''private_key''))
            (\<lambda>parameter_private_key.
          bind (lift (parameter_name stack_name thing_name ''certificate_pem''))
            (\<lambda>parameter_certificate_pem.
          seq (thing_cert_policy_unwind client certificate_arn thing_name policy_name
                 physical_resource_id parameter_private_key parameter_certificate_pem)
         (seq (delete_thing_block client thing_name)
              (ret \<lparr>PhysicalResourceId = physical_resource_id, Data = []\<rparr>)))))"

definition thing_cert_policy_handler :: handler where
  "thing_cert_policy_handler client ev =
     (if RequestType ev = ''Create'' then thing_cert_policy_onCreate client ev
      else if RequestType ev = ''Update'' then thing_cert_policy_onUpdate client ev
      else if RequestType ev = ''Delete'' then thing_cert_policy_onDelete client ev
      else run_body no_vars (throw (Error ''Invalid request type'')))"

section \<open>GreengrassV2Deployment.addComponent\<close>

record configuration_update =
  merge :: "string option"
  reset :: "string option"

record component_entry =
  componentVersion :: string
  configurationUpdate :: "configuration_update option"

text \<open>
  A \<^verbatim>\<open>Component\<close> object: its own properties, the first binding of a key being the
  property. It is a plain object, so it inherits from \<^verbatim>\<open>Object.prototype\<close>.
\<close>

type_synonym Component = "(string \<times> component_entry) list"

text \<open>\<^verbatim>\<open>Object.keys(component)\<close>: each own key once.\<close>

definition object_keys :: "Component \<Rightarrow> string list" where
  "object_keys component = remdups (map fst component)"

text \<open>The property names every plain object inherits from \<^verbatim>\<open>Object.prototype\<close>.\<close>

definition object_prototype_names :: "string list" where
  "object_prototype_names =
     [''constructor'', ''__defineGetter__'', ''__defineSetter__'', ''hasOwnProperty'',
      ''__lookupGetter__'', ''__lookupSetter__'', ''isPrototypeOf'', ''propertyIsEnumerable'',
      ''toString'', ''valueOf'', ''__proto__'', ''toLocaleString'']"

text \<open>\<^verbatim>\<open>key in object\<close>: an own property, or one found on the prototype chain.\<close>

definition js_in :: "string \<Rightarrow> Component \<Rightarrow> bool" where
  "js_in key object = (key \<in> fst ` set object \<or> key \<in> set object_prototype_names)"

text \<open>
  \<^verbatim>\<open>object[key] = value\<close> for a key that is not \<^verbatim>\<open>in\<close> the object: a new own
  property, after the existing ones.
\<close>

definition define_property :: "Component \<Rightarrow> string \<Rightarrow> component_entry \<Rightarrow> Component" where
  "define_property object key v = object @ [(key, v)]"

text \<open>The state \<^verbatim>\<open>addComponent\<close> works on: \<^verbatim>\<open>this.componentList\<close> and the process.\<close>

record deployment =
  componentList :: Component
  process :: world

text \<open>The callback of \<^verbatim>\<open>forEach\<close>, for one key of the argument.\<close>

definition add_one :: "Component \<Rightarrow> string \<Rightarrow> deployment \<Rightarrow> deployment" where
  "add_one component key d =
     (if js_in key (componentList d)
      then d\<lparr>process := (process d)\<lparr>exitCode := Some 1\<rparr>\<rparr>
      else (case map_of component key of
              Some v \<Rightarrow> d\<lparr>componentList := define_property (componentList d) key v\<rparr>
            | None \<Rightarrow> d))"

definition addComponent :: "Component \<Rightarrow> deployment \<Rightarrow> deployment" where
  "addComponent component d = fold (add_one component) (object_keys component) d"

text \<open>\<^verbatim>\<open>this.componentList[key]\<close> as a caller reads it: the own property.\<close>

definition component_of :: "deployment \<Rightarrow> string \<Rightarrow> component_entry option" where
  "component_of d key = map_of (componentList d) key"

section \<open>Observations on a run\<close>

text \<open>
  The calls of \<open>cs\<close> that are issued when each is sent in turn after the calls \<open>tr\<close> and
  the first rejection ends the sequence.
\<close>

fun attempted :: "client \<Rightarrow> call list \<Rightarrow> call list \<Rightarrow> call list" where
  "attempted client tr [] = []"
| "attempted client tr (c # cs) =
     c # (if isl (client tr c) then [] else attempted client (tr @ [c]) cs)"


text \<open>The properties of these names all have a string conversion.\<close>

definition converts :: "event \<Rightarrow> string list \<Rightarrow> bool" where
  "converts ev ks = list_all (\<lambda>k. \<not> isl (to_string (resource_property ev k))) ks"

text \<open>
  What a handler reads from key \<open>k\<close> of the outcome of a call into a variable that was
  undefined: the value of the response, and nothing when the call was rejected or
  resolved without a response object.
\<close>

definition response_value :: "exn + jsval \<Rightarrow> string \<Rightarrow> jsval" where
  "response_value outcome k =
     (case outcome of
        Inl e \<Rightarrow> JUndefined
      | Inr response \<Rightarrow> (case member response k of Inl e \<Rightarrow> JUndefined | Inr v \<Rightarrow> v))"

text \<open>
  The certificate ARN that a Create of the device identity bundle, started in world \<open>w\<close>,
  reads from the response to its create-keys-and-certificate call (the second call).
\<close>

definition issued_certificate_arn :: "client \<Rightarrow> event \<Rightarrow> world \<Rightarrow> jsval" where
  "issued_certificate_arn client ev w =
     response_value
       (client
          (trace w @ [Call IoTClient CreateThingCommand
                        (JObj [(''thingName'', resource_property ev ''ThingName'')])])
          (Call IoTClient CreateKeysAndCertificateCommand (JObj [(''setAsActive'', JBool True)])))
       ''certificateArn''"

text \<open>The statement list issues only calls whose command is in \<open>S\<close>.\<close>

definition issues_only :: "command set \<Rightarrow> 'a prog \<Rightarrow> bool" where
  "issues_only S m =
     (\<forall>l w. \<exists>ext. trace (snd (snd (m l w))) = trace w @ ext \<and> command ` set ext \<subseteq> S)"

subsection \<open>Fake clients and sample events\<close>

text \<open>A client that rejects every call.\<close>

definition rejecting_client :: client where
  "rejecting_client tr c = Inl (ClientFault ''ThrottlingException'')"

text \<open>
  A client that resolves every call with a plausible response, except that the lookup of
  the \<^verbatim>\<open>iot:Data-ATS\<close> endpoint is rejected.
\<close>

definition fake_client :: client where
  "fake_client tr c =
     (case command c of
        CreateRoleAliasCommand \<Rightarrow>
          Inr (JObj [(''roleAlias'', JStr ''alias-1''), (''roleAliasArn'', JStr ''arn:alias-1'')])
      | CreateThingCommand \<Rightarrow> Inr (JObj [(''thingArn'', JStr ''arn:thing-1'')])
      | CreateKeysAndCertificateCommand \<Rightarrow>
          Inr (JObj [(''certificateArn'', JStr ''arn:cert-1''),
                     (''certificateId'', JStr ''cert-1''),
                     (''certificatePem'', JStr ''PEM''),
                     (''keyPair'', JObj [(''PublicKey'', JStr ''PUB''),
                                         (''PrivateKey'', JStr ''KEY'')])])
      | CreatePolicyCommand \<Rightarrow> Inr (JObj [(''policyArn'', JStr ''arn:policy-1'')])
      | DescribeEndpointCommand \<Rightarrow>
          (if input c = JObj [(''endpointType'', JStr ''iot:Data-ATS'')]
           then Inl (ClientFault ''ThrottlingException'')
           else Inr (JObj [(''endpointAddress'', JStr ''credentials.example'')]))
      | ListPolicyVersionsCommand \<Rightarrow>
          Inr (JObj [(''policyVersions'',
                 JArr [JObj [(''versionId'', JStr ''1''), (''isDefaultVersion'', JBool False)],
                       JObj [(''versionId'', JStr ''2''), (''isDefaultVersion'', JBool True)]])])
      | ListTargetsForPolicyCommand \<Rightarrow> Inr (JObj [(''targets'', JArr [JStr ''arn:cert-1''])])
      | ListPrincipalThingsCommand \<Rightarrow> Inr (JObj [(''things'', JArr [JStr ''thing-2''])])
      | ListAttachedPoliciesCommand \<Rightarrow>
          Inr (JObj [(''policies'', JArr [JObj [(''policyName'', JStr ''policy-2'')]])])
      | ListThingPrincipalsCommand \<Rightarrow> Inr (JObj [(''principals'', JArr [])])
      | CreateThingGroupCommand \<Rightarrow>
          Inr (JObj [(''thingGroupArn'', JStr ''arn:group-1''), (''thingGroupId'', JStr ''id-1'')])
      | CreateDeploymentCommand \<Rightarrow>
          Inr (JObj [(''deploymentId'', JStr ''dep-1''), (''iotJobId'', JStr ''job-1''),
                     (''iotJobArn'', JStr ''arn:job-1'')])
      | _ \<Rightarrow> Inr (JObj []))"

definition initial_world :: world where
  "initial_world = \<lparr>trace = [], exitCode = None\<rparr>"

definition thing_event :: "string \<Rightarrow> event" where
  "thing_event request_type =
     \<lparr>RequestType = request_type,
      ResourceProperties =
        [(''ThingName'', JStr ''thing-1''),
         (''IotPolicyName'', JStr ''policy-1''),
         (''IotPolicy'', JStr ''{}''),
         (''StackName'', JStr ''stack''),
         (''CertificateArn'', JStr ''arn:cert-1'')],
      PhysicalResourceId = (if request_type = ''Create'' then JUndefined else JStr ''cert-1'')\<rparr>"

text \<open>A JSON object with an own property named toString: it has no string conversion.\<close>

definition unprintable :: jsval where
  "unprintable = JObj [(''toString'', JNum (Number False ''1''))]"

text \<open>The same event with one property replaced.\<close>

definition with_property :: "event \<Rightarrow> string \<Rightarrow> jsval \<Rightarrow> event" where
  "with_property ev k v = ev\<lparr>ResourceProperties := (k, v) # ResourceProperties ev\<rparr>"

definition group_event :: event where
  "group_event =
     \<lparr>RequestType = ''Create'',
      ResourceProperties =
        [(''ThingGroupName'', JStr ''G1''),
         (''ThingArnList'', JArr [JStr ''arn:a'', JStr ''arn:b''])],
      PhysicalResourceId = JUndefined\<rparr>"

definition deployment_event :: event where
  "deployment_event =
     \<lparr>RequestType = ''Create'',
      ResourceProperties =
        [(''TargetArn'', JStr ''arn:group-1''),
         (''DeploymentName'', JStr ''deployment''),
         (''Components'', JObj [])],
      PhysicalResourceId = JUndefined\<rparr>"

definition deployment_delete_event :: event where
  "deployment_delete_event =
     \<lparr>RequestType = ''Delete'',
      ResourceProperties = [(''DeploymentId'', unprintable)],
      PhysicalResourceId = JStr ''dep-1''\<rparr>"

section \<open>Running a statement list\<close>

declare template_literal.simps [simp del]

lemmas prog_defs = try_catch_def bind_def seq_def send_def assign_member_def lift_def
  assign_def set_exitCode_def ret_def read_def throw_def template_literal.simps

lemma seq_apply:
  "seq m n l w = (case m l w of (Inl e, l', w') \<Rightarrow> (Inl e, l', w') | (Inr x, l', w') \<Rightarrow> n l' w')"
  by (simp add: seq_def bind_def)

lemma bind_apply:
  "bind m f l w = (case m l w of (Inl e, l', w') \<Rightarrow> (Inl e, l', w') | (Inr x, l', w') \<Rightarrow> f x l' w')"
  by (simp add: bind_def)

lemma ret_apply: "ret x l w = (Inr x, l, w)"
  by (simp add: ret_def)

lemma lift_apply: "lift r l w = (r, l, w)"
  by (simp add: lift_def)

lemma run_body_fst: "fst (run_body init m w) = fst (m init w)"
  by (simp add: run_body_def split: prod.splits)

lemma member_Inl_Inr: "member v k = Inl e \<Longrightarrow> member v k' = Inr x \<Longrightarrow> False"
  by (cases v) auto

lemma template_literal_state: "snd (template_literal vs l w) = (l, w)"
  by (induction vs)
     (auto simp: template_literal.simps ret_def bind_def lift_def split: sum.splits)

lemma template_literal_ok:
  "list_all (\<lambda>v. \<not> isl (to_string v)) vs \<Longrightarrow> template_literal vs l w = (Inr (), l, w)"
  by (induction vs)
     (auto simp: template_literal.simps ret_def bind_def lift_def split: sum.splits)

lemma template_literal_one:
  "\<not> isl (to_string v) \<Longrightarrow> template_literal [v] l w = (Inr (), l, w)"
  using template_literal_ok [of "[v]" l w] by simp

lemma template_literal_two:
  "\<not> isl (to_string u) \<Longrightarrow> \<not> isl (to_string v) \<Longrightarrow> template_literal [u, v] l w = (Inr (), l, w)"
  using template_literal_ok [of "[u, v]" l w] by simp

lemma try_catch_ok:
  assumes "\<And>e l w. fst (h e l w) = Inr ()"
  shows "fst (try_catch m h l w) = Inr ()"
  using assms by (auto simp: try_catch_def split: prod.splits sum.splits)

lemma seq_ok:
  "fst (m l w) = Inr x \<Longrightarrow> seq m n l w = n (fst (snd (m l w))) (snd (snd (m l w)))"
  by (auto simp: seq_def bind_def split: prod.splits sum.splits)

lemma create_thing_block_run:
  "\<exists>l' w'. create_thing_block client n l w = (Inr (), l', w')
     \<and> trace w' = trace w @ [Call IoTClient CreateThingCommand (JObj [(''thingName'', n)])]
     \<and> l' ''physical_resource_id'' = l ''physical_resource_id''
     \<and> l' ''certificate_arn'' = l ''certificate_arn''"
  by (auto simp: create_thing_block_def prog_defs split: sum.splits prod.splits)

lemma create_keys_block_run:
  "\<exists>l' w'. create_keys_block client l w = (Inr (), l', w')
     \<and> trace w' = trace w @ [Call IoTClient CreateKeysAndCertificateCommand (JObj [(''setAsActive'', JBool True)])]
     \<and> l' ''physical_resource_id'' =
         (case client (trace w) (Call IoTClient CreateKeysAndCertificateCommand (JObj [(''setAsActive'', JBool True)])) of
            Inl e \<Rightarrow> l ''physical_resource_id''
          | Inr response \<Rightarrow> (case member response ''certificateId'' of
                               Inl e \<Rightarrow> l ''physical_resource_id'' | Inr v \<Rightarrow> v))
     \<and> (l ''certificate_arn'' = JUndefined \<longrightarrow>
          l' ''certificate_arn'' =
            response_value (client (trace w) (Call IoTClient CreateKeysAndCertificateCommand
               (JObj [(''setAsActive'', JBool True)]))) ''certificateArn'')"
  by (auto simp: create_keys_block_def prog_defs response_value_def
      split: sum.splits prod.splits dest: member_Inl_Inr)

lemma create_policy_block_run:
  "\<exists>l' w'. create_policy_block client d n l w = (Inr (), l', w')
     \<and> trace w' = trace w @ [Call IoTClient CreatePolicyCommand (JObj [(''policyDocument'', d), (''policyName'', n)])]
     \<and> l' ''physical_resource_id'' = l ''physical_resource_id''
     \<and> l' ''certificate_arn'' = l ''certificate_arn''"
  by (auto simp: create_policy_block_def prog_defs split: sum.splits prod.splits)

lemma attach_policy_block_run:
  assumes "\<not> isl (to_string (l ''certificate_arn''))" and "\<not> isl (to_string n)"
  shows "\<exists>w' c. attach_policy_block client n l w = (Inr (), l, w')
     \<and> trace w' = trace w @ [c] \<and> command c = AttachPolicyCommand"
  using assms
  by (auto simp: attach_policy_block_def prog_defs split: sum.splits prod.splits)

lemma attach_thing_principal_block_run:
  assumes "\<not> isl (to_string (l ''certificate_arn''))" and "\<not> isl (to_string n)"
  shows "\<exists>w' c. attach_thing_principal_block client n l w = (Inr (), l, w')
     \<and> trace w' = trace w @ [c] \<and> command c = AttachThingPrincipalCommand"
  using assms
  by (auto simp: attach_thing_principal_block_def prog_defs split: sum.splits prod.splits)

lemma put_parameters_block_run:
  assumes "to_string n = Inr t"
  shows "\<exists>w'. put_parameters_block client n k1 k2 l w = (Inr (), l, w')
     \<and> trace w' = trace w @ attempted client (trace w)
          [Call SSMClient PutParameterCommand (private_key_parameter t k1 (l ''private_key'')),
           Call SSMClient PutParameterCommand (certificate_pem_parameter t k2 (l ''certificate_pem''))]"
  using assms
  by (auto simp: put_parameters_block_def prog_defs split: sum.splits prod.splits)

lemma data_endpoint_block_run:
  "data_endpoint_block client l w =
     (Inr (),
      l(''data_ats_endpoint_address'' :=
          (case client (trace w) (Call IoTClient DescribeEndpointCommand
                  (JObj [(''endpointType'', JStr ''iot:Data-ATS'')])) of
             Inl e \<Rightarrow> JStr ''stack_error: see log files''
           | Inr response \<Rightarrow> (case member response ''endpointAddress'' of
                                Inl e \<Rightarrow> JStr ''stack_error: see log files''
                              | Inr a \<Rightarrow> a))),
      w\<lparr>trace := trace w @ [Call IoTClient DescribeEndpointCommand
                  (JObj [(''endpointType'', JStr ''iot:Data-ATS'')])]\<rparr>)"
  by (auto simp: data_endpoint_block_def prog_defs split: sum.splits prod.splits)

lemma credential_endpoint_block_run:
  "credential_endpoint_block client l w =
     (Inr (),
      l(''credential_provider_endpoint_address'' :=
          (case client (trace w) (Call IoTClient DescribeEndpointCommand
                  (JObj [(''endpointType'', JStr ''iot:CredentialProvider'')])) of
             Inl e \<Rightarrow> JStr ''stack_error: see log files''
           | Inr response \<Rightarrow> (case member response ''endpointAddress'' of
                                Inl e \<Rightarrow> JStr ''stack_error: see log files''
                              | Inr a \<Rightarrow> a))),
      w\<lparr>trace := trace w @ [Call IoTClient DescribeEndpointCommand
                  (JObj [(''endpointType'', JStr ''iot:CredentialProvider'')])]\<rparr>)"
  by (auto simp: credential_endpoint_block_def prog_defs split: sum.splits prod.splits)

lemma required_steps_run:
  assumes cert: "l ''certificate_arn'' = JUndefined"
    and tn: "to_string tn = Inr t"
    and pn: "\<not> isl (to_string pn)"
    and arn: "\<not> isl (to_string (response_value
                (client (trace w @ [Call IoTClient CreateThingCommand (JObj [(''thingName'', tn)])])
                   (Call IoTClient CreateKeysAndCertificateCommand
                      (JObj [(''setAsActive'', JBool True)]))) ''certificateArn''))"
  shows "\<exists>l' w' c4 c5 p1 p2.
     thing_cert_policy_required_steps client tn pn pd k1 k2 l w = (Inr (), l', w')
   \<and> trace w' = trace w
        @ [Call IoTClient CreateThingCommand (JObj [(''thingName'', tn)]),
           Call IoTClient CreateKeysAndCertificateCommand (JObj [(''setAsActive'', JBool True)]),
           Call IoTClient CreatePolicyCommand
             (JObj [(''policyDocument'', pd), (''policyName'', pn)]),
           c4, c5]
        @ attempted client
            (trace w
              @ [Call IoTClient CreateThingCommand (JObj [(''thingName'', tn)]),
                 Call IoTClient CreateKeysAndCertificateCommand (JObj [(''setAsActive'', JBool True)]),
                 Call IoTClient CreatePolicyCommand
                   (JObj [(''policyDocument'', pd), (''policyName'', pn)]),
                 c4, c5])
            [p1, p2]
   \<and> command c4 = AttachPolicyCommand \<and> command c5 = AttachThingPrincipalCommand
   \<and> command p1 = PutParameterCommand \<and> command p2 = PutParameterCommand
   \<and> l' ''physical_resource_id'' =
         (case client (trace w @ [Call IoTClient CreateThingCommand (JObj [(''thingName'', tn)])])
                 (Call IoTClient CreateKeysAndCertificateCommand (JObj [(''setAsActive'', JBool True)])) of
            Inl e \<Rightarrow> l ''physical_resource_id''
          | Inr response \<Rightarrow> (case member response ''certificateId'' of
                               Inl e \<Rightarrow> l ''physical_resource_id'' | Inr v \<Rightarrow> v))"
proof -
  have tn': "\<not> isl (to_string tn)" using tn by simp
  obtain l1 w1 where b1: "create_thing_block client tn l w = (Inr (), l1, w1)"
    and t1: "trace w1 = trace w @ [Call IoTClient CreateThingCommand (JObj [(''thingName'', tn)])]"
    and p1: "l1 ''physical_resource_id'' = l ''physical_resource_id''"
    and a1: "l1 ''certificate_arn'' = l ''certificate_arn''"
    using create_thing_block_run by blast
  obtain l2 w2 where b2: "create_keys_block client l1 w1 = (Inr (), l2, w2)"
    and t2: "trace w2 = trace w1 @ [Call IoTClient CreateKeysAndCertificateCommand (JObj [(''setAsActive'', JBool True)])]"
    and p2: "l2 ''physical_resource_id'' =
         (case client (trace w1) (Call IoTClient CreateKeysAndCertificateCommand (JObj [(''setAsActive'', JBool True)])) of
            Inl e \<Rightarrow> l1 ''physical_resource_id''
          | Inr response \<Rightarrow> (case member response ''certificateId'' of
                               Inl e \<Rightarrow> l1 ''physical_resource_id'' | Inr v \<Rightarrow> v))"
    and a2: "l1 ''certificate_arn'' = JUndefined \<longrightarrow>
          l2 ''certificate_arn'' =
            response_value (client (trace w1) (Call IoTClient CreateKeysAndCertificateCommand
               (JObj [(''setAsActive'', JBool True)]))) ''certificateArn''"
    using create_keys_block_run by blast
  obtain l3 w3 where b3: "create_policy_block client pd pn l2 w2 = (Inr (), l3, w3)"
    and t3: "trace w3 = trace w2 @ [Call IoTClient CreatePolicyCommand
             (JObj [(''policyDocument'', pd), (''policyName'', pn)])]"
    and p3: "l3 ''physical_resource_id'' = l2 ''physical_resource_id''"
    and a3: "l3 ''certificate_arn'' = l2 ''certificate_arn''"
    using create_policy_block_run by blast
  have conv: "\<not> isl (to_string (l3 ''certificate_arn''))"
    using arn a1 a2 a3 cert t1 by simp
  obtain w4 c4 where b4: "attach_policy_block client pn l3 w3 = (Inr (), l3, w4)"
    and t4: "trace w4 = trace w3 @ [c4]" and c4: "command c4 = AttachPolicyCommand"
    using attach_policy_block_run [of l3 pn client w3] conv pn by blast
  obtain w5 c5 where b5: "attach_thing_principal_block client tn l3 w4 = (Inr (), l3, w5)"
    and t5: "trace w5 = trace w4 @ [c5]" and c5: "command c5 = AttachThingPrincipalCommand"
    using attach_thing_principal_block_run [of l3 tn client w4] conv tn' by blast
  obtain w6 where b6: "put_parameters_block client tn k1 k2 l3 w5 = (Inr (), l3, w6)"
    and t6: "trace w6 = trace w5 @ attempted client (trace w5)
          [Call SSMClient PutParameterCommand (private_key_parameter t k1 (l3 ''private_key'')),
           Call SSMClient PutParameterCommand (certificate_pem_parameter t k2 (l3 ''certificate_pem''))]"
    using put_parameters_block_run [OF tn] by blast
  have run: "thing_cert_policy_required_steps client tn pn pd k1 k2 l w = (Inr (), l3, w6)"
    by (simp add: thing_cert_policy_required_steps_def seq_apply b1 b2 b3 b4 b5 b6)
  show ?thesis
    apply (rule exI[where x=l3], rule exI[where x=w6], rule exI[where x=c4], rule exI[where x=c5])
    apply (rule exI[where x="Call SSMClient PutParameterCommand
              (private_key_parameter t k1 (l3 ''private_key''))"])
    apply (rule exI[where x="Call SSMClient PutParameterCommand
              (certificate_pem_parameter t k2 (l3 ''certificate_pem''))"])
    using run t1 t2 t3 t4 t5 t6 c4 c5 p1 p2 p3
    apply (simp del: attempted.simps cong: sum.case_cong)
    done
qed

section \<open>Delete and Update\<close>

lemmas fixture_defs = fake_client_def rejecting_client_def initial_world_def thing_event_def
  group_event_def deployment_event_def deployment_delete_event_def unprintable_def
  with_property_def

lemmas value_defs = resource_property_def fail_create_def parameter_name_def no_vars_def
  private_key_parameter_def certificate_pem_parameter_def add_thing_call_def converts_def
  response_value_def

lemma converts_Cons:
  "converts ev (k # ks) = (\<not> isl (to_string (resource_property ev k)) \<and> converts ev ks)"
  by (simp add: converts_def)

lemma converts_Nil: "converts ev []"
  by (simp add: converts_def)

lemma parameter_name_ok:
  assumes "\<not> isl (to_string s)" and "\<not> isl (to_string n)"
  shows "\<exists>k. parameter_name s n leaf = Inr k"
  using assms by (auto simp: parameter_name_def split: sum.splits)

lemma template_literal_one_ok:
  "\<not> isl (to_string v) \<Longrightarrow> fst (template_literal [v] l w) = Inr ()"
  by (simp add: template_literal_one)

lemma thing_cert_policy_unwind_ok:
  assumes "\<not> isl (to_string arn)" and "\<not> isl (to_string tn)" and "\<not> isl (to_string pn)"
  shows "fst (thing_cert_policy_unwind client arn tn pn pid k1 k2 l w) = Inr ()"
  using assms
  by (simp add: thing_cert_policy_unwind_def seq_ok
      delete_parameters_block_def prune_policy_versions_block_def detach_policy_targets_block_def
      delete_policy_block_def detach_certificate_block_def delete_certificate_block_def
      detach_thing_principals_block_def try_catch_ok template_literal_one_ok ret_apply)

lemma delete_thing_block_ok:
  "\<not> isl (to_string n) \<Longrightarrow> fst (delete_thing_block client n l w) = Inr ()"
  by (simp add: delete_thing_block_def try_catch_ok template_literal_one_ok)

lemma role_alias_delete_result:
  "fst (role_alias_onDelete client ev w) =
     Inr \<lparr>PhysicalResourceId = event.PhysicalResourceId ev, Data = []\<rparr>"
  by (simp add: role_alias_onDelete_def Let_def run_body_fst seq_ok try_catch_ok ret_apply)

lemma thing_cert_policy_delete_result:
  assumes "converts ev [''StackName'', ''ThingName'', ''IotPolicyName'', ''CertificateArn'']"
  shows "fst (thing_cert_policy_onDelete client ev w) =
     Inr \<lparr>PhysicalResourceId = event.PhysicalResourceId ev, Data = []\<rparr>"
proof -
  have c: "\<not> isl (to_string (resource_property ev ''StackName''))"
    "\<not> isl (to_string (resource_property ev ''ThingName''))"
    "\<not> isl (to_string (resource_property ev ''IotPolicyName''))"
    "\<not> isl (to_string (resource_property ev ''CertificateArn''))"
    using assms by (simp_all add: converts_Cons)
  obtain k1 where k1: "parameter_name (resource_property ev ''StackName'')
      (resource_property ev ''ThingName'') ''private_key'' = Inr k1"
    using parameter_name_ok c(1,2) by blast
  obtain k2 where k2: "parameter_name (resource_property ev ''StackName'')
      (resource_property ev ''ThingName'') ''certificate_pem'' = Inr k2"
    using parameter_name_ok c(1,2) by blast
  show ?thesis
    by (simp add: thing_cert_policy_onDelete_def Let_def run_body_fst bind_apply lift_apply
        k1 k2 seq_ok thing_cert_policy_unwind_ok delete_thing_block_ok c ret_apply)
qed

lemma thing_group_delete_result:
  assumes "converts ev [''ThingGroupName'']"
  shows "fst (thing_group_onDelete client ev w) =
     Inr \<lparr>PhysicalResourceId = event.PhysicalResourceId ev, Data = []\<rparr>"
  using assms
  by (simp add: thing_group_onDelete_def Let_def run_body_fst seq_ok try_catch_ok
      template_literal_one_ok ret_apply converts_Cons)

lemma greengrass_v2_deployment_delete_result:
  assumes "converts ev [''DeploymentId'']"
  shows "fst (greengrass_v2_deployment_onDelete client ev w) =
     Inr \<lparr>PhysicalResourceId = event.PhysicalResourceId ev, Data = []\<rparr>"
  using assms
  by (simp add: greengrass_v2_deployment_onDelete_def Let_def run_body_fst seq_ok try_catch_ok
      template_literal_one_ok template_literal_one ret_apply converts_Cons)

lemma update_result:
  "role_alias_onUpdate client ev w =
     (Inr \<lparr>PhysicalResourceId = event.PhysicalResourceId ev, Data = []\<rparr>, w)"
  "thing_cert_policy_onUpdate client ev w =
     (Inr \<lparr>PhysicalResourceId = event.PhysicalResourceId ev, Data = []\<rparr>, w)"
  "thing_group_onUpdate client ev w =
     (Inr \<lparr>PhysicalResourceId = event.PhysicalResourceId ev, Data = []\<rparr>, w)"
  "greengrass_v2_deployment_onUpdate client ev w =
     (Inr \<lparr>PhysicalResourceId = event.PhysicalResourceId ev, Data = []\<rparr>, w)"
  by (simp_all add: role_alias_onUpdate_def thing_cert_policy_onUpdate_def
      thing_group_onUpdate_def greengrass_v2_deployment_onUpdate_def Let_def run_body_def ret_def)

text \<open>
  Claim C2, as stated, fails. The DeploymentId of this Delete event is a JSON object with
  an own property named toString. The client resolves the cancel call, and the fleet
  deployment's onDelete still throws: the template literal of its log message cannot
  convert the DeploymentId to a string.
\<close>

theorem delete_raises_on_unprintable_property:
  "fst (greengrass_v2_deployment_onDelete fake_client deployment_delete_event initial_world) =
     Inl TypeError"
  by (simp add: greengrass_v2_deployment_onDelete_def run_body_def fixture_defs value_defs
      prog_defs Let_def)

text \<open>
  Claim C2, amended. Whatever the client answers to the calls, onDelete returns (it never
  throws) and its response carries the event's PhysicalResourceId and an empty Data map:
  for the credential-exchange binding always, and for the three other kinds provided the
  properties the handler interpolates into strings have a string conversion (StackName,
  ThingName, IotPolicyName and CertificateArn for the device identity bundle,
  ThingGroupName for the device group membership, DeploymentId for the fleet deployment).
\<close>

theorem delete_never_raises:
  "fst (role_alias_onDelete client ev w) =
     Inr \<lparr>PhysicalResourceId = event.PhysicalResourceId ev, Data = []\<rparr>
   \<and> (converts ev [''StackName'', ''ThingName'', ''IotPolicyName'', ''CertificateArn'']
      \<longrightarrow> fst (thing_cert_policy_onDelete client ev w) =
            Inr \<lparr>PhysicalResourceId = event.PhysicalResourceId ev, Data = []\<rparr>)
   \<and> (converts ev [''ThingGroupName'']
      \<longrightarrow> fst (thing_group_onDelete client ev w) =
            Inr \<lparr>PhysicalResourceId = event.PhysicalResourceId ev, Data = []\<rparr>)
   \<and> (converts ev [''DeploymentId'']
      \<longrightarrow> fst (greengrass_v2_deployment_onDelete client ev w) =
            Inr \<lparr>PhysicalResourceId = event.PhysicalResourceId ev, Data = []\<rparr>)"
  by (simp add: role_alias_delete_result thing_cert_policy_delete_result
      thing_group_delete_result greengrass_v2_deployment_delete_result)

theorem delete_never_raises_witness:
  "converts (thing_event ''Delete'')
     [''StackName'', ''ThingName'', ''IotPolicyName'', ''CertificateArn'']
   \<and> converts (thing_event ''Delete'') [''ThingGroupName'']
   \<and> converts (thing_event ''Delete'') [''DeploymentId'']
   \<and> fst (thing_cert_policy_onDelete rejecting_client (thing_event ''Delete'') initial_world) =
       Inr \<lparr>PhysicalResourceId = JStr ''cert-1'', Data = []\<rparr>
   \<and> fst (thing_group_onDelete rejecting_client (thing_event ''Delete'') initial_world) =
       Inr \<lparr>PhysicalResourceId = JStr ''cert-1'', Data = []\<rparr>
   \<and> fst (greengrass_v2_deployment_onDelete rejecting_client (thing_event ''Delete'')
          initial_world) =
       Inr \<lparr>PhysicalResourceId = JStr ''cert-1'', Data = []\<rparr>"
  using delete_never_raises [of rejecting_client "thing_event ''Delete''" initial_world]
  by (simp add: thing_event_def converts_def resource_property_def)

text \<open>
  Claim C3. For each of the four resource kinds, every event and every client, onUpdate
  returns the event's PhysicalResourceId unchanged and an empty Data map, and leaves the
  world as it was: no call is issued.
\<close>

theorem update_is_identity_preserving_noop:
  "role_alias_onUpdate client ev w =
     (Inr \<lparr>PhysicalResourceId = event.PhysicalResourceId ev, Data = []\<rparr>, w)
   \<and> thing_cert_policy_onUpdate client ev w =
     (Inr \<lparr>PhysicalResourceId = event.PhysicalResourceId ev, Data = []\<rparr>, w)
   \<and> thing_group_onUpdate client ev w =
     (Inr \<lparr>PhysicalResourceId = event.PhysicalResourceId ev, Data = []\<rparr>, w)
   \<and> greengrass_v2_deployment_onUpdate client ev w =
     (Inr \<lparr>PhysicalResourceId = event.PhysicalResourceId ev, Data = []\<rparr>, w)"
  by (simp add: update_result)

lemmas create_block_defs = create_thing_block_def create_keys_block_def create_policy_block_def
  attach_policy_block_def attach_thing_principal_block_def put_parameters_block_def
  data_endpoint_block_def credential_endpoint_block_def create_result_def
  thing_cert_policy_required_steps_def thing_cert_policy_additional_data_def

lemma additional_data_run:
  "fst (thing_cert_policy_additional_data client tn k1 k2 l w1) =
     (Inr \<lparr>PhysicalResourceId = l ''physical_resource_id'',
          Data = [(''ThingArn'', l ''thing_arn''),
                  (''ThingName'', tn),
                  (''CertificateArn'', l ''certificate_arn''),
                  (''IotPolicyArn'', l ''policy_arn''),
                  (''PrivateKeySecretParameter'', k1),
                  (''CertificatePemParameter'', k2),
                  (''DataAtsEndpointAddress'',
                     (case client (trace w1) (Call IoTClient DescribeEndpointCommand
                             (JObj [(''endpointType'', JStr ''iot:Data-ATS'')])) of
                        Inl e \<Rightarrow> JStr ''stack_error: see log files''
                      | Inr response \<Rightarrow>
                          (case member response ''endpointAddress'' of
                             Inl e \<Rightarrow> JStr ''stack_error: see log files''
                           | Inr address \<Rightarrow> address))),
                  (''CredentialProviderEndpointAddress'',
                     (case client
                             (trace w1 @ [Call IoTClient DescribeEndpointCommand
                                            (JObj [(''endpointType'', JStr ''iot:Data-ATS'')])])
                             (Call IoTClient DescribeEndpointCommand
                                (JObj [(''endpointType'', JStr ''iot:CredentialProvider'')])) of
                        Inl e \<Rightarrow> JStr ''stack_error: see log files''
                      | Inr response \<Rightarrow>
                          (case member response ''endpointAddress'' of
                             Inl e \<Rightarrow> JStr ''stack_error: see log files''
                           | Inr address \<Rightarrow> address)))]\<rparr>)
   \<and> trace (snd (snd (thing_cert_policy_additional_data client tn k1 k2 l w1))) =
       trace w1 @ [Call IoTClient DescribeEndpointCommand
                     (JObj [(''endpointType'', JStr ''iot:Data-ATS'')]),
                   Call IoTClient DescribeEndpointCommand
                     (JObj [(''endpointType'', JStr ''iot:CredentialProvider'')])]"
  by (simp add: thing_cert_policy_additional_data_def seq_apply data_endpoint_block_run
      credential_endpoint_block_run create_result_def bind_def read_def ret_def)

section \<open>Create of the device identity bundle\<close>

text \<open>
  Claim C9. Let the Create of the device identity bundle have reached its endpoint
  lookups: the flag is not set, the two parameter names \<open>k1\<close> and \<open>k2\<close> were built, and
  the try blocks before the lookups have run, leaving the variables \<open>l\<close> and the world
  \<open>w1\<close>. Then, whatever the two lookups answer, Create returns; every other output is
  the value it had in \<open>l\<close>; an endpoint output is the address of the response when the
  lookup resolves, and the string "stack_error: see log files" when it fails.
\<close>

theorem endpoint_lookup_sentinel:
  assumes "\<not> fail_create ev"
    and "parameter_name (resource_property ev ''StackName'')
           (resource_property ev ''ThingName'') ''private_key'' = Inr k1"
    and "parameter_name (resource_property ev ''StackName'')
           (resource_property ev ''ThingName'') ''certificate_pem'' = Inr k2"
    and "thing_cert_policy_required_steps client
           (resource_property ev ''ThingName'') (resource_property ev ''IotPolicyName'')
           (resource_property ev ''IotPolicy'') k1 k2
           (no_vars(''physical_resource_id'' := JStr [])) w = (Inr (), l, w1)"
  shows "fst (thing_cert_policy_onCreate client ev w) =
     Inr \<lparr>PhysicalResourceId = l ''physical_resource_id'',
          Data = [(''ThingArn'', l ''thing_arn''),
                  (''ThingName'', resource_property ev ''ThingName''),
                  (''CertificateArn'', l ''certificate_arn''),
                  (''IotPolicyArn'', l ''policy_arn''),
                  (''PrivateKeySecretParameter'', k1),
                  (''CertificatePemParameter'', k2),
                  (''DataAtsEndpointAddress'',
                     (case client (trace w1) (Call IoTClient DescribeEndpointCommand
                             (JObj [(''endpointType'', JStr ''iot:Data-ATS'')])) of
                        Inl e \<Rightarrow> JStr ''stack_error: see log files''
                      | Inr response \<Rightarrow>
                          (case member response ''endpointAddress'' of
                             Inl e \<Rightarrow> JStr ''stack_error: see log files''
                           | Inr address \<Rightarrow> address))),
                  (''CredentialProviderEndpointAddress'',
                     (case client
                             (trace w1 @ [Call IoTClient DescribeEndpointCommand
                                            (JObj [(''endpointType'', JStr ''iot:Data-ATS'')])])
                             (Call IoTClient DescribeEndpointCommand
                                (JObj [(''endpointType'', JStr ''iot:CredentialProvider'')])) of
                        Inl e \<Rightarrow> JStr ''stack_error: see log files''
                      | Inr response \<Rightarrow>
                          (case member response ''endpointAddress'' of
                             Inl e \<Rightarrow> JStr ''stack_error: see log files''
                           | Inr address \<Rightarrow> address)))]\<rparr>"
  using assms(1) additional_data_run [of client "resource_property ev ''ThingName''" k1 k2 l w1]
  by (simp add: thing_cert_policy_onCreate_def Let_def run_body_fst bind_apply lift_apply
      assms(2,3,4) seq_apply split: prod.splits sum.splits)

theorem endpoint_lookup_sentinel_witness:
  "\<not> fail_create (thing_event ''Create'')
   \<and> fst (thing_cert_policy_onCreate fake_client (thing_event ''Create'') initial_world) =
     Inr \<lparr>PhysicalResourceId = JStr ''cert-1'',
          Data = [(''ThingArn'', JStr ''arn:thing-1''),
                  (''ThingName'', JStr ''thing-1''),
                  (''CertificateArn'', JStr ''arn:cert-1''),
                  (''IotPolicyArn'', JStr ''arn:policy-1''),
                  (''PrivateKeySecretParameter'', JStr ''/stack/thing-1/private_key''),
                  (''CertificatePemParameter'', JStr ''/stack/thing-1/certificate_pem''),
                  (''DataAtsEndpointAddress'', JStr ''stack_error: see log files''),
                  (''CredentialProviderEndpointAddress'', JStr ''credentials.example'')]\<rparr>"
proof -
  have nf: "\<not> fail_create (thing_event ''Create'')"
    by (simp add: fixture_defs value_defs)
  have k1: "parameter_name (resource_property (thing_event ''Create'') ''StackName'')
           (resource_property (thing_event ''Create'') ''ThingName'') ''private_key''
          = Inr (JStr ''/stack/thing-1/private_key'')"
    by (simp add: fixture_defs value_defs)
  have k2: "parameter_name (resource_property (thing_event ''Create'') ''StackName'')
           (resource_property (thing_event ''Create'') ''ThingName'') ''certificate_pem''
          = Inr (JStr ''/stack/thing-1/certificate_pem'')"
    by (simp add: fixture_defs value_defs)
  have run: "thing_cert_policy_required_steps fake_client
           (resource_property (thing_event ''Create'') ''ThingName'')
           (resource_property (thing_event ''Create'') ''IotPolicyName'')
           (resource_property (thing_event ''Create'') ''IotPolicy'')
           (JStr ''/stack/thing-1/private_key'') (JStr ''/stack/thing-1/certificate_pem'')
           (no_vars(''physical_resource_id'' := JStr [])) initial_world =
          (Inr (),
           fst (snd (thing_cert_policy_required_steps fake_client
              (resource_property (thing_event ''Create'') ''ThingName'')
              (resource_property (thing_event ''Create'') ''IotPolicyName'')
              (resource_property (thing_event ''Create'') ''IotPolicy'')
              (JStr ''/stack/thing-1/private_key'') (JStr ''/stack/thing-1/certificate_pem'')
              (no_vars(''physical_resource_id'' := JStr [])) initial_world)),
           snd (snd (thing_cert_policy_required_steps fake_client
              (resource_property (thing_event ''Create'') ''ThingName'')
              (resource_property (thing_event ''Create'') ''IotPolicyName'')
              (resource_property (thing_event ''Create'') ''IotPolicy'')
              (JStr ''/stack/thing-1/private_key'') (JStr ''/stack/thing-1/certificate_pem'')
              (no_vars(''physical_resource_id'' := JStr [])) initial_world)))"
    by (simp add: fixture_defs value_defs create_block_defs prog_defs Let_def)
  show ?thesis
    using nf endpoint_lookup_sentinel [OF nf k1 k2 run]
    by (simp add: fixture_defs value_defs create_block_defs prog_defs Let_def)
qed

lemma for_each_send_run:
  "\<exists>r w'. for_each xs (\<lambda>x. bind (send client (mk x)) (\<lambda>_. ret ())) l w = (r, l, w')
      \<and> trace w' = trace w @ attempted client (trace w) (map mk xs)"
proof (induction xs arbitrary: w)
  case Nil
  show ?case by (simp add: ret_def)
next
  case (Cons x xs)
  show ?case
  proof (cases "client (trace w) (mk x)")
    case (Inl e)
    then show ?thesis by (simp add: prog_defs)
  next
    case (Inr v)
    obtain r w' where
      "for_each xs (\<lambda>x. bind (send client (mk x)) (\<lambda>_. ret ())) l (w\<lparr>trace := trace w @ [mk x]\<rparr>) = (r, l, w')"
      "trace w' = trace (w\<lparr>trace := trace w @ [mk x]\<rparr>)
                   @ attempted client (trace (w\<lparr>trace := trace w @ [mk x]\<rparr>)) (map mk xs)"
      using Cons.IH by blast
    with Inr show ?thesis by (simp add: prog_defs)
  qed
qed

lemma add_things_block_run:
  assumes "\<not> isl (to_string v)" and "\<not> isl (to_string g)"
  shows "\<exists>w'. add_things_block client g v l w = (Inr (), l, w')
      \<and> trace w' = trace w @ (case iterate v of
                                 Inl e \<Rightarrow> []
                               | Inr things \<Rightarrow>
                                   attempted client (trace w) (map (add_thing_call g) things))"
proof (cases "iterate v")
  case (Inl e)
  then show ?thesis
    using assms
    by (simp add: add_things_block_def for_of_def try_catch_def bind_def lift_def
        set_exitCode_def seq_apply template_literal_two)
next
  case (Inr things)
  obtain r w' where
    "for_each things (\<lambda>x. bind (send client (add_thing_call g x)) (\<lambda>_. ret ())) l w = (r, l, w')"
    "trace w' = trace w @ attempted client (trace w) (map (add_thing_call g) things)"
    using for_each_send_run by blast
  with Inr show ?thesis
    using assms
    by (cases r)
       (simp_all add: add_things_block_def for_of_def try_catch_def bind_def lift_def
          set_exitCode_def seq_apply template_literal_two)
qed

lemma create_thing_group_block_run:
  "\<exists>l' w'. create_thing_group_block client g d l w = (Inr (), l', w')
     \<and> trace w' = trace w @ [Call IoTClient CreateThingGroupCommand
                (JObj [(''thingGroupName'', g),
                       (''thingGroupProperties'', JObj [(''thingGroupDescription'', d)])])]
     \<and> l' ''physical_resource_id'' =
         (case client (trace w) (Call IoTClient CreateThingGroupCommand
                (JObj [(''thingGroupName'', g),
                       (''thingGroupProperties'', JObj [(''thingGroupDescription'', d)])])) of
            Inl e \<Rightarrow> l ''physical_resource_id''
          | Inr response \<Rightarrow> (case member response ''thingGroupId'' of
                               Inl e \<Rightarrow> l ''physical_resource_id'' | Inr v \<Rightarrow> v))"
  by (auto simp: create_thing_group_block_def prog_defs split: sum.splits prod.splits
      dest: member_Inl_Inr)

lemma thing_group_create_run:
  assumes "\<not> fail_create ev" and "converts ev [''ThingArnList'', ''ThingGroupName'']"
  shows "\<exists>d w'. thing_group_onCreate client ev w =
           (Inr \<lparr>PhysicalResourceId =
                   (case client (trace w) (Call IoTClient CreateThingGroupCommand
                      (JObj [(''thingGroupName'', resource_property ev ''ThingGroupName''),
                             (''thingGroupProperties'',
                                JObj [(''thingGroupDescription'',
                                       resource_property ev ''ThingGroupDescription'')])])) of
                      Inl e \<Rightarrow> JStr []
                    | Inr response \<Rightarrow> (case member response ''thingGroupId'' of
                                         Inl e \<Rightarrow> JStr [] | Inr v \<Rightarrow> v)),
                 Data = d\<rparr>, w')
     \<and> trace w' = trace w
         @ Call IoTClient CreateThingGroupCommand
                (JObj [(''thingGroupName'', resource_property ev ''ThingGroupName''),
                       (''thingGroupProperties'',
                          JObj [(''thingGroupDescription'',
                                 resource_property ev ''ThingGroupDescription'')])])
         # (case iterate (resource_property ev ''ThingArnList'') of
              Inl e \<Rightarrow> []
            | Inr things \<Rightarrow>
                attempted client
                  (trace w @ [Call IoTClient CreateThingGroupCommand
                    (JObj [(''thingGroupName'', resource_property ev ''ThingGroupName''),
                           (''thingGroupProperties'',
                              JObj [(''thingGroupDescription'',
                                     resource_property ev ''ThingGroupDescription'')])])])
                  (map (add_thing_call (resource_property ev ''ThingGroupName'')) things))"
proof -
  let ?g = "resource_property ev ''ThingGroupName''"
  let ?d = "resource_property ev ''ThingGroupDescription''"
  let ?cg = "Call IoTClient CreateThingGroupCommand
                (JObj [(''thingGroupName'', ?g),
                       (''thingGroupProperties'', JObj [(''thingGroupDescription'', ?d)])])"
  have c: "\<not> isl (to_string (resource_property ev ''ThingArnList''))" "\<not> isl (to_string ?g)"
    using assms(2) by (simp_all add: converts_Cons)
  obtain l1 w1 where b1: "create_thing_group_block client ?g ?d
        (no_vars(''physical_resource_id'' := JStr [])) w = (Inr (), l1, w1)"
    and t1: "trace w1 = trace w @ [?cg]"
    and p1: "l1 ''physical_resource_id'' =
         (case client (trace w) ?cg of
            Inl e \<Rightarrow> (no_vars(''physical_resource_id'' := JStr [])) ''physical_resource_id''
          | Inr response \<Rightarrow> (case member response ''thingGroupId'' of
                               Inl e \<Rightarrow> (no_vars(''physical_resource_id'' := JStr [])) ''physical_resource_id''
                             | Inr v \<Rightarrow> v))"
    using create_thing_group_block_run by blast
  obtain w2 where b2: "add_things_block client ?g (resource_property ev ''ThingArnList'') l1 w1
        = (Inr (), l1, w2)"
    and t2: "trace w2 = trace w1 @ (case iterate (resource_property ev ''ThingArnList'') of
                                 Inl e \<Rightarrow> []
                               | Inr things \<Rightarrow>
                                   attempted client (trace w1) (map (add_thing_call ?g) things))"
    using add_things_block_run [of "resource_property ev ''ThingArnList''" ?g client l1 w1] c
    by blast
  have "thing_group_onCreate client ev w =
          (Inr \<lparr>PhysicalResourceId = l1 ''physical_resource_id'',
                Data = [(''ThingGroupName'', ?g), (''ThingGroupArn'', l1 ''group_arn''),
                        (''ThingGroupId'', l1 ''group_id'')]\<rparr>, w2)"
    using assms(1)
    by (simp add: thing_group_onCreate_def Let_def run_body_def seq_apply b1 b2
        bind_def read_def ret_def)
  then show ?thesis
    using t1 t2 p1 by (simp cong: sum.case_cong)
qed

lemma role_alias_create_run:
  assumes "\<not> fail_create ev"
  shows "\<exists>d w'. role_alias_onCreate client ev w =
           (Inr \<lparr>PhysicalResourceId =
                   (case client (trace w) (Call IoTClient CreateRoleAliasCommand
                      (JObj [(''roleAlias'', resource_property ev ''IotRoleAliasName''),
                             (''roleArn'', resource_property ev ''IamRoleArn'')])) of
                      Inl e \<Rightarrow> JStr []
                    | Inr response \<Rightarrow> (case member response ''roleAlias'' of
                                         Inl e \<Rightarrow> JStr [] | Inr v \<Rightarrow> v)),
                 Data = d\<rparr>, w')
     \<and> trace w' = trace w @ [Call IoTClient CreateRoleAliasCommand
                      (JObj [(''roleAlias'', resource_property ev ''IotRoleAliasName''),
                             (''roleArn'', resource_property ev ''IamRoleArn'')])]"
  using assms
  by (auto simp: role_alias_onCreate_def Let_def run_body_def prog_defs no_vars_def
      split: sum.splits prod.splits dest: member_Inl_Inr)

lemma greengrass_v2_deployment_create_run:
  assumes "\<not> fail_create ev"
  shows "isl (fst (greengrass_v2_deployment_onCreate client ev w)) =
           (case client (trace w) (Call GreengrassV2Client CreateDeploymentCommand
                        (JObj [(''targetArn'', resource_property ev ''TargetArn''),
                               (''deploymentName'', resource_property ev ''DeploymentName''),
                               (''components'', resource_property ev ''Components'')])) of
              Inl e \<Rightarrow> True
            | Inr response \<Rightarrow> isl (member response ''deploymentId''))
     \<and> trace (snd (greengrass_v2_deployment_onCreate client ev w)) =
         trace w @ [Call GreengrassV2Client CreateDeploymentCommand
                        (JObj [(''targetArn'', resource_property ev ''TargetArn''),
                               (''deploymentName'', resource_property ev ''DeploymentName''),
                               (''components'', resource_property ev ''Components'')])]"
  using assms
  by (auto simp: greengrass_v2_deployment_onCreate_def Let_def run_body_def prog_defs
      split: sum.splits prod.splits dest: member_Inl_Inr)

lemma fail_create_run:
  assumes "fail_create ev"
  shows "role_alias_onCreate client ev w = (Inl (Error ''Create failure requested, logging''), w)"
    and "thing_cert_policy_onCreate client ev w =
           (Inl (Error ''Create failure requested, logging''), w)"
    and "thing_group_onCreate client ev w = (Inl (Error ''Create failure requested, logging''), w)"
    and "greengrass_v2_deployment_onCreate client ev w =
           (Inl (Error ''Create failure requested, logging''), w)"
  using assms
  by (simp_all add: role_alias_onCreate_def thing_cert_policy_onCreate_def
      thing_group_onCreate_def greengrass_v2_deployment_onCreate_def run_body_def throw_def)

lemma thing_cert_policy_create_run:
  assumes "\<not> fail_create ev"
    and "converts ev [''StackName'', ''ThingName'', ''IotPolicyName'']"
    and "\<not> isl (to_string (issued_certificate_arn client ev w))"
  shows "\<exists>d w' c4 c5 p1 p2. thing_cert_policy_onCreate client ev w =
           (Inr \<lparr>PhysicalResourceId =
                   (case client
                      (trace w @ [Call IoTClient CreateThingCommand
                                    (JObj [(''thingName'', resource_property ev ''ThingName'')])])
                      (Call IoTClient CreateKeysAndCertificateCommand
                         (JObj [(''setAsActive'', JBool True)])) of
                      Inl e \<Rightarrow> JStr []
                    | Inr response \<Rightarrow> (case member response ''certificateId'' of
                                         Inl e \<Rightarrow> JStr [] | Inr v \<Rightarrow> v)),
                 Data = d\<rparr>, w')
     \<and> trace w' = trace w
        @ [Call IoTClient CreateThingCommand (JObj [(''thingName'', resource_property ev ''ThingName'')]),
           Call IoTClient CreateKeysAndCertificateCommand (JObj [(''setAsActive'', JBool True)]),
           Call IoTClient CreatePolicyCommand
             (JObj [(''policyDocument'', resource_property ev ''IotPolicy''),
                    (''policyName'', resource_property ev ''IotPolicyName'')]),
           c4, c5]
        @ attempted client
            (trace w
              @ [Call IoTClient CreateThingCommand (JObj [(''thingName'', resource_property ev ''ThingName'')]),
                 Call IoTClient CreateKeysAndCertificateCommand (JObj [(''setAsActive'', JBool True)]),
                 Call IoTClient CreatePolicyCommand
                   (JObj [(''policyDocument'', resource_property ev ''IotPolicy''),
                          (''policyName'', resource_property ev ''IotPolicyName'')]),
                 c4, c5])
            [p1, p2]
        @ [Call IoTClient DescribeEndpointCommand (JObj [(''endpointType'', JStr ''iot:Data-ATS'')]),
           Call IoTClient DescribeEndpointCommand
             (JObj [(''endpointType'', JStr ''iot:CredentialProvider'')])]
   \<and> command c4 = AttachPolicyCommand \<and> command c5 = AttachThingPrincipalCommand
   \<and> command p1 = PutParameterCommand \<and> command p2 = PutParameterCommand"
proof -
  let ?tn = "resource_property ev ''ThingName''"
  let ?pn = "resource_property ev ''IotPolicyName''"
  let ?pd = "resource_property ev ''IotPolicy''"
  let ?init = "no_vars(''physical_resource_id'' := JStr [])"
  have c: "\<not> isl (to_string (resource_property ev ''StackName''))"
    "\<not> isl (to_string ?tn)" "\<not> isl (to_string ?pn)"
    using assms(2) by (simp_all add: converts_Cons)
  obtain t where t: "to_string ?tn = Inr t"
    using c(2) by (cases "to_string ?tn") auto
  obtain k1 where k1: "parameter_name (resource_property ev ''StackName'') ?tn ''private_key''
      = Inr k1"
    using parameter_name_ok c(1,2) by blast
  obtain k2 where k2: "parameter_name (resource_property ev ''StackName'') ?tn ''certificate_pem''
      = Inr k2"
    using parameter_name_ok c(1,2) by blast
  have arn: "\<not> isl (to_string (response_value
                (client (trace w @ [Call IoTClient CreateThingCommand (JObj [(''thingName'', ?tn)])])
                   (Call IoTClient CreateKeysAndCertificateCommand
                      (JObj [(''setAsActive'', JBool True)]))) ''certificateArn''))"
    using assms(3) by (simp add: issued_certificate_arn_def)
  have undef: "?init ''certificate_arn'' = JUndefined"
    by (simp add: no_vars_def)
  obtain l' w' c4 c5 p1 p2 where
    run: "thing_cert_policy_required_steps client ?tn ?pn ?pd k1 k2 ?init w = (Inr (), l', w')"
    and tr: "trace w' = trace w
        @ [Call IoTClient CreateThingCommand (JObj [(''thingName'', ?tn)]),
           Call IoTClient CreateKeysAndCertificateCommand (JObj [(''setAsActive'', JBool True)]),
           Call IoTClient CreatePolicyCommand
             (JObj [(''policyDocument'', ?pd), (''policyName'', ?pn)]),
           c4, c5]
        @ attempted client
            (trace w
              @ [Call IoTClient CreateThingCommand (JObj [(''thingName'', ?tn)]),
                 Call IoTClient CreateKeysAndCertificateCommand (JObj [(''setAsActive'', JBool True)]),
                 Call IoTClient CreatePolicyCommand
                   (JObj [(''policyDocument'', ?pd), (''policyName'', ?pn)]),
                 c4, c5])
            [p1, p2]"
    and cs: "command c4 = AttachPolicyCommand" "command c5 = AttachThingPrincipalCommand"
       "command p1 = PutParameterCommand" "command p2 = PutParameterCommand"
    and pid: "l' ''physical_resource_id'' =
         (case client (trace w @ [Call IoTClient CreateThingCommand (JObj [(''thingName'', ?tn)])])
                 (Call IoTClient CreateKeysAndCertificateCommand (JObj [(''setAsActive'', JBool True)])) of
            Inl e \<Rightarrow> ?init ''physical_resource_id''
          | Inr response \<Rightarrow> (case member response ''certificateId'' of
                               Inl e \<Rightarrow> ?init ''physical_resource_id''
                             | Inr v \<Rightarrow> v))"
    using required_steps_run [of ?init ?tn t ?pn client w ?pd k1 k2] undef t c(3) arn by blast
  obtain r2 l2 w2 where add: "thing_cert_policy_additional_data client ?tn k1 k2 l' w' = (r2, l2, w2)"
    by (cases "thing_cert_policy_additional_data client ?tn k1 k2 l' w'") auto
  have r2: "\<exists>d. r2 = Inr \<lparr>PhysicalResourceId = l' ''physical_resource_id'', Data = d\<rparr>"
    and t2: "trace w2 = trace w' @ [Call IoTClient DescribeEndpointCommand
                     (JObj [(''endpointType'', JStr ''iot:Data-ATS'')]),
                   Call IoTClient DescribeEndpointCommand
                     (JObj [(''endpointType'', JStr ''iot:CredentialProvider'')])]"
    using additional_data_run [of client ?tn k1 k2 l' w'] add by simp_all
  then obtain d where d: "r2 = Inr \<lparr>PhysicalResourceId = l' ''physical_resource_id'', Data = d\<rparr>"
    by blast
  have "thing_cert_policy_onCreate client ev w =
          (Inr \<lparr>PhysicalResourceId = l' ''physical_resource_id'', Data = d\<rparr>, w2)"
    using assms(1)
    by (simp add: thing_cert_policy_onCreate_def Let_def run_body_def bind_apply lift_apply
        k1 k2 seq_apply run add d)
  then show ?thesis
    using tr cs pid t2
    apply -
    apply (rule exI[where x=d])
    apply (rule exI[where x=w2])
    apply (rule exI[where x=c4], rule exI[where x=c5], rule exI[where x=p1], rule exI[where x=p2])
    apply (simp del: attempted.simps cong: sum.case_cong)
    done
qed

section \<open>Create sequences\<close>




section \<open>The identity token of a failed Create\<close>

text \<open>
  Claim C7, as stated, fails for the fleet deployment: when the create-deployment call is
  rejected, onCreate throws instead of returning an identity token.
\<close>

theorem deployment_create_raises:
  "\<not> fail_create deployment_event
   \<and> fst (greengrass_v2_deployment_onCreate rejecting_client deployment_event initial_world) =
       Inl (CreateDeploymentError (JStr ''arn:group-1'') (ClientFault ''ThrottlingException''))"
  by (simp add: greengrass_v2_deployment_onCreate_def run_body_def fixture_defs value_defs
      prog_defs Let_def)

text \<open>
  Claim C7, amended. Let the force-fail flag not be set. Create of the
  credential-exchange binding returns whatever the client answers; so does Create of the
  device identity bundle, provided StackName, ThingName, IotPolicyName and the
  certificate ARN read from the create-keys response have a string conversion, and
  Create of the device group membership, provided ThingArnList and ThingGroupName have
  one. The identity token returned is the value read from the response of the
  identity-producing call (create-role-alias, create-keys-and-certificate,
  create-thing-group) when that call resolved with a response object, and the empty
  string when it was rejected or resolved without one. Create of the fleet deployment
  throws exactly when the create-deployment call is rejected or resolves without a
  response object.
\<close>

theorem create_identity_token:
  assumes "\<not> fail_create ev"
  shows "(\<exists>d. fst (role_alias_onCreate client ev w) =
            Inr \<lparr>PhysicalResourceId =
                   (case client (trace w) (Call IoTClient CreateRoleAliasCommand
                      (JObj [(''roleAlias'', resource_property ev ''IotRoleAliasName''),
                             (''roleArn'', resource_property ev ''IamRoleArn'')])) of
                      Inl e \<Rightarrow> JStr []
                    | Inr response \<Rightarrow> (case member response ''roleAlias'' of
                                         Inl e \<Rightarrow> JStr [] | Inr v \<Rightarrow> v)),
                 Data = d\<rparr>)
   \<and> (converts ev [''StackName'', ''ThingName'', ''IotPolicyName'']
        \<and> \<not> isl (to_string (issued_certificate_arn client ev w)) \<longrightarrow>
      (\<exists>d. fst (thing_cert_policy_onCreate client ev w) =
            Inr \<lparr>PhysicalResourceId =
                   (case client
                      (trace w @ [Call IoTClient CreateThingCommand
                                    (JObj [(''thingName'', resource_property ev ''ThingName'')])])
                      (Call IoTClient CreateKeysAndCertificateCommand
                         (JObj [(''setAsActive'', JBool True)])) of
                      Inl e \<Rightarrow> JStr []
                    | Inr response \<Rightarrow> (case member response ''certificateId'' of
                                         Inl e \<Rightarrow> JStr [] | Inr v \<Rightarrow> v)),
                 Data = d\<rparr>))
   \<and> (converts ev [''ThingArnList'', ''ThingGroupName''] \<longrightarrow>
      (\<exists>d. fst (thing_group_onCreate client ev w) =
            Inr \<lparr>PhysicalResourceId =
                   (case client (trace w) (Call IoTClient CreateThingGroupCommand
                      (JObj [(''thingGroupName'', resource_property ev ''ThingGroupName''),
                             (''thingGroupProperties'',
                                JObj [(''thingGroupDescription'',
                                       resource_property ev ''ThingGroupDescription'')])])) of
                      Inl e \<Rightarrow> JStr []
                    | Inr response \<Rightarrow> (case member response ''thingGroupId'' of
                                         Inl e \<Rightarrow> JStr [] | Inr v \<Rightarrow> v)),
                 Data = d\<rparr>))
   \<and> isl (fst (greengrass_v2_deployment_onCreate client ev w)) =
           (case client (trace w) (Call GreengrassV2Client CreateDeploymentCommand
                        (JObj [(''targetArn'', resource_property ev ''TargetArn''),
                               (''deploymentName'', resource_property ev ''DeploymentName''),
                               (''components'', resource_property ev ''Components'')])) of
              Inl e \<Rightarrow> True
            | Inr response \<Rightarrow> isl (member response ''deploymentId''))"
proof (intro conjI impI)
  show "\<exists>d. fst (role_alias_onCreate client ev w) =
            Inr \<lparr>PhysicalResourceId =
                   (case client (trace w) (Call IoTClient CreateRoleAliasCommand
                      (JObj [(''roleAlias'', resource_property ev ''IotRoleAliasName''),
                             (''roleArn'', resource_property ev ''IamRoleArn'')])) of
                      Inl e \<Rightarrow> JStr []
                    | Inr response \<Rightarrow> (case member response ''roleAlias'' of
                                         Inl e \<Rightarrow> JStr [] | Inr v \<Rightarrow> v)),
                 Data = d\<rparr>"
    using role_alias_create_run [OF assms, of client w] by (metis fst_conv)
  show "\<exists>d. fst (thing_cert_policy_onCreate client ev w) =
            Inr \<lparr>PhysicalResourceId =
                   (case client
                      (trace w @ [Call IoTClient CreateThingCommand
                                    (JObj [(''thingName'', resource_property ev ''ThingName'')])])
                      (Call IoTClient CreateKeysAndCertificateCommand
                         (JObj [(''setAsActive'', JBool True)])) of
                      Inl e \<Rightarrow> JStr []
                    | Inr response \<Rightarrow> (case member response ''certificateId'' of
                                         Inl e \<Rightarrow> JStr [] | Inr v \<Rightarrow> v)),
                 Data = d\<rparr>"
    if "converts ev [''StackName'', ''ThingName'', ''IotPolicyName'']
        \<and> \<not> isl (to_string (issued_certificate_arn client ev w))"
    using thing_cert_policy_create_run [OF assms, of client w] that by (metis fst_conv)
  show "\<exists>d. fst (thing_group_onCreate client ev w) =
            Inr \<lparr>PhysicalResourceId =
                   (case client (trace w) (Call IoTClient CreateThingGroupCommand
                      (JObj [(''thingGroupName'', resource_property ev ''ThingGroupName''),
                             (''thingGroupProperties'',
                                JObj [(''thingGroupDescription'',
                                       resource_property ev ''ThingGroupDescription'')])])) of
                      Inl e \<Rightarrow> JStr []
                    | Inr response \<Rightarrow> (case member response ''thingGroupId'' of
                                         Inl e \<Rightarrow> JStr [] | Inr v \<Rightarrow> v)),
                 Data = d\<rparr>"
    if "converts ev [''ThingArnList'', ''ThingGroupName'']"
    using thing_group_create_run [OF assms that, of client w] by (metis fst_conv)
  show "isl (fst (greengrass_v2_deployment_onCreate client ev w)) =
           (case client (trace w) (Call GreengrassV2Client CreateDeploymentCommand
                        (JObj [(''targetArn'', resource_property ev ''TargetArn''),
                               (''deploymentName'', resource_property ev ''DeploymentName''),
                               (''components'', resource_property ev ''Components'')])) of
              Inl e \<Rightarrow> True
            | Inr response \<Rightarrow> isl (member response ''deploymentId''))"
    using greengrass_v2_deployment_create_run [OF assms, of client w] by simp
qed

theorem create_identity_token_witness:
  "\<not> fail_create (thing_event ''Create'')
   \<and> converts (thing_event ''Create'') [''StackName'', ''ThingName'', ''IotPolicyName'']
   \<and> converts (thing_event ''Create'') [''ThingArnList'', ''ThingGroupName'']
   \<and> \<not> isl (to_string (issued_certificate_arn rejecting_client (thing_event ''Create'')
                initial_world))
   \<and> \<not> isl (to_string (issued_certificate_arn fake_client (thing_event ''Create'')
                initial_world))
   \<and> (\<exists>d. fst (thing_cert_policy_onCreate rejecting_client (thing_event ''Create'')
               initial_world) = Inr \<lparr>PhysicalResourceId = JStr [], Data = d\<rparr>)
   \<and> (\<exists>d. fst (thing_cert_policy_onCreate fake_client (thing_event ''Create'')
               initial_world) = Inr \<lparr>PhysicalResourceId = JStr ''cert-1'', Data = d\<rparr>)
   \<and> (\<exists>d. fst (thing_group_onCreate fake_client (thing_event ''Create'')
               initial_world) = Inr \<lparr>PhysicalResourceId = JStr ''id-1'', Data = d\<rparr>)"
proof -
  have nf: "\<not> fail_create (thing_event ''Create'')"
    by (simp add: fixture_defs value_defs)
  have c: "converts (thing_event ''Create'') [''StackName'', ''ThingName'', ''IotPolicyName'']"
    "converts (thing_event ''Create'') [''ThingArnList'', ''ThingGroupName'']"
    "\<not> isl (to_string (issued_certificate_arn rejecting_client (thing_event ''Create'')
                initial_world))"
    "\<not> isl (to_string (issued_certificate_arn fake_client (thing_event ''Create'')
                initial_world))"
    by (simp_all add: fixture_defs value_defs issued_certificate_arn_def)
  show ?thesis
    using nf c create_identity_token [OF nf, of rejecting_client initial_world]
      create_identity_token [OF nf, of fake_client initial_world]
    by (simp add: fixture_defs resource_property_def)
qed

section \<open>The dispatcher\<close>

text \<open>
  Claim C5, as stated, fails for the fleet deployment: the intent is Create, the
  force-fail flag is not set, and the handler still throws when the create-deployment
  call is rejected.
\<close>

theorem deployment_handler_raises:
  "RequestType deployment_event = ''Create''
   \<and> \<not> fail_create deployment_event
   \<and> isl (fst (greengrass_v2_deployment_handler rejecting_client deployment_event
              initial_world))"
  by (simp add: greengrass_v2_deployment_handler_def greengrass_v2_deployment_onCreate_def
      run_body_def fixture_defs value_defs prog_defs Let_def)

lemma invalid_request_run:
  "run_body no_vars (throw (Error ''Invalid request type'')) w =
     (Inl (Error ''Invalid request type''), w)"
  by (simp add: run_body_def throw_def)

text \<open>
  Claim C5, amended. The handler of the credential-exchange binding throws exactly when
  the intent is not Create, Update or Delete, or when it is Create and the force-fail flag
  is set. The same holds for the device identity bundle and the device group membership,
  provided the values they interpolate into strings have a string conversion (StackName,
  ThingName, IotPolicyName, CertificateArn and the certificate ARN read from the
  create-keys response; ThingArnList and ThingGroupName). The handler of the fleet
  deployment, provided DeploymentId has a string conversion, throws in these cases and
  also when the intent is Create and the create-deployment call is rejected or resolves
  without a response object. In every other case the handler returns, whatever the
  client answers. In the invalid-intent and force-fail cases the world is left as it
  was: no call is issued.
\<close>

theorem handler_fails_only:
  "(isl (fst (role_alias_handler client ev w)) =
      (RequestType ev \<notin> {''Create'', ''Update'', ''Delete''}
       \<or> RequestType ev = ''Create'' \<and> fail_create ev))
   \<and> (converts ev [''StackName'', ''ThingName'', ''IotPolicyName'', ''CertificateArn'']
        \<and> \<not> isl (to_string (issued_certificate_arn client ev w)) \<longrightarrow>
      isl (fst (thing_cert_policy_handler client ev w)) =
      (RequestType ev \<notin> {''Create'', ''Update'', ''Delete''}
       \<or> RequestType ev = ''Create'' \<and> fail_create ev))
   \<and> (converts ev [''ThingArnList'', ''ThingGroupName''] \<longrightarrow>
      isl (fst (thing_group_handler client ev w)) =
      (RequestType ev \<notin> {''Create'', ''Update'', ''Delete''}
       \<or> RequestType ev = ''Create'' \<and> fail_create ev))
   \<and> (converts ev [''DeploymentId''] \<longrightarrow>
      isl (fst (greengrass_v2_deployment_handler client ev w)) =
      (RequestType ev \<notin> {''Create'', ''Update'', ''Delete''}
       \<or> RequestType ev = ''Create''
          \<and> (fail_create ev
             \<or> (case client (trace w) (Call GreengrassV2Client CreateDeploymentCommand
                        (JObj [(''targetArn'', resource_property ev ''TargetArn''),
                               (''deploymentName'', resource_property ev ''DeploymentName''),
                               (''components'', resource_property ev ''Components'')])) of
                   Inl e \<Rightarrow> True
                 | Inr response \<Rightarrow> isl (member response ''deploymentId'')))))
   \<and> (RequestType ev \<notin> {''Create'', ''Update'', ''Delete''}
        \<or> RequestType ev = ''Create'' \<and> fail_create ev
      \<longrightarrow> snd (role_alias_handler client ev w) = w
        \<and> snd (thing_cert_policy_handler client ev w) = w
        \<and> snd (thing_group_handler client ev w) = w
        \<and> snd (greengrass_v2_deployment_handler client ev w) = w)"
proof -
  consider (create_fail) "RequestType ev = ''Create''" "fail_create ev"
    | (create) "RequestType ev = ''Create''" "\<not> fail_create ev"
    | (update) "RequestType ev = ''Update''"
    | (delete) "RequestType ev = ''Delete''"
    | (invalid) "RequestType ev \<notin> {''Create'', ''Update'', ''Delete''}"
    by auto
  then show ?thesis
  proof cases
    case create_fail
    then show ?thesis
      by (simp add: role_alias_handler_def thing_cert_policy_handler_def thing_group_handler_def
          greengrass_v2_deployment_handler_def fail_create_run)
  next
    case create
    have r: "\<not> isl (fst (role_alias_onCreate client ev w))"
      using role_alias_create_run [OF create(2), of client w] by auto
    have t: "\<not> isl (fst (thing_cert_policy_onCreate client ev w))"
      if "converts ev [''StackName'', ''ThingName'', ''IotPolicyName'', ''CertificateArn'']"
        "\<not> isl (to_string (issued_certificate_arn client ev w))"
    proof -
      have "converts ev [''StackName'', ''ThingName'', ''IotPolicyName'']"
        using that(1) by (simp add: converts_Cons)
      then show ?thesis
        using thing_cert_policy_create_run [OF create(2) _ that(2)] by auto
    qed
    have g: "\<not> isl (fst (thing_group_onCreate client ev w))"
      if "converts ev [''ThingArnList'', ''ThingGroupName'']"
      using thing_group_create_run [OF create(2) that, of client w] by auto
    show ?thesis
      using create r t g greengrass_v2_deployment_create_run [OF create(2), of client w]
      by (simp add: role_alias_handler_def thing_cert_policy_handler_def thing_group_handler_def
          greengrass_v2_deployment_handler_def)
  next
    case update
    then show ?thesis
      by (simp add: role_alias_handler_def thing_cert_policy_handler_def thing_group_handler_def
          greengrass_v2_deployment_handler_def update_result)
  next
    case delete
    have t: "\<not> isl (fst (thing_cert_policy_onDelete client ev w))"
      if "converts ev [''StackName'', ''ThingName'', ''IotPolicyName'', ''CertificateArn'']"
      using thing_cert_policy_delete_result [OF that] by simp
    have g: "\<not> isl (fst (thing_group_onDelete client ev w))"
      if "converts ev [''ThingArnList'', ''ThingGroupName'']"
    proof -
      have "converts ev [''ThingGroupName'']"
        using that by (simp add: converts_Cons)
      then show ?thesis using thing_group_delete_result by simp
    qed
    have d: "\<not> isl (fst (greengrass_v2_deployment_onDelete client ev w))"
      if "converts ev [''DeploymentId'']"
      using greengrass_v2_deployment_delete_result [OF that] by simp
    show ?thesis
      using delete t g d
      by (simp add: role_alias_handler_def thing_cert_policy_handler_def thing_group_handler_def
          greengrass_v2_deployment_handler_def role_alias_delete_result)
  next
    case invalid
    then show ?thesis
      by (simp add: role_alias_handler_def thing_cert_policy_handler_def thing_group_handler_def
          greengrass_v2_deployment_handler_def invalid_request_run)
  qed
qed

theorem handler_fails_only_witness:
  "RequestType (thing_event ''Replace'') = ''Replace''
   \<and> converts (thing_event ''Create'')
        [''StackName'', ''ThingName'', ''IotPolicyName'', ''CertificateArn'']
   \<and> converts (thing_event ''Create'') [''ThingArnList'', ''ThingGroupName'']
   \<and> converts (thing_event ''Create'') [''DeploymentId'']
   \<and> \<not> isl (to_string (issued_certificate_arn rejecting_client (thing_event ''Create'')
                initial_world))
   \<and> isl (fst (thing_cert_policy_handler fake_client (thing_event ''Replace'') initial_world))
   \<and> snd (thing_cert_policy_handler fake_client (thing_event ''Replace'') initial_world) =
       initial_world
   \<and> \<not> isl (fst (thing_cert_policy_handler rejecting_client (thing_event ''Create'')
                  initial_world))
   \<and> \<not> isl (fst (thing_group_handler rejecting_client (thing_event ''Create'')
                  initial_world))
   \<and> isl (fst (greengrass_v2_deployment_handler rejecting_client (thing_event ''Create'')
                  initial_world))"
proof -
  have c: "converts (thing_event ''Create'')
        [''StackName'', ''ThingName'', ''IotPolicyName'', ''CertificateArn'']"
    "converts (thing_event ''Create'') [''ThingArnList'', ''ThingGroupName'']"
    "converts (thing_event ''Create'') [''DeploymentId'']"
    "\<not> isl (to_string (issued_certificate_arn rejecting_client (thing_event ''Create'')
                initial_world))"
    by (simp_all add: fixture_defs value_defs issued_certificate_arn_def)
  show ?thesis
    using c handler_fails_only [of fake_client "thing_event ''Replace''" initial_world]
      handler_fails_only [of rejecting_client "thing_event ''Create''" initial_world]
    by (simp add: fixture_defs value_defs issued_certificate_arn_def)
qed

section \<open>Create of the device group membership\<close>

text \<open>
  Claim C8. The properties are ThingGroupName "G1" and ThingArnList ["arn:a", "arn:b"];
  the client resolves the group-create call with a response carrying an ARN and an id,
  and does not reject the add-member call for "arn:a". Then Create issues exactly the
  group-create call followed by the add-member calls for "arn:a" and "arn:b", in that
  order; the identity token is the id of the response, and the outputs hold the group's
  name, ARN and id.
\<close>

theorem group_create_scenario:
  assumes "ResourceProperties ev =
             [(''ThingGroupName'', JStr ''G1''),
              (''ThingArnList'', JArr [JStr ''arn:a'', JStr ''arn:b''])]"
    and "client (trace w)
           (Call IoTClient CreateThingGroupCommand
              (JObj [(''thingGroupName'', JStr ''G1''),
                     (''thingGroupProperties'',
                        JObj [(''thingGroupDescription'', JUndefined)])])) = Inr response"
    and "member response ''thingGroupArn'' = Inr arn"
    and "member response ''thingGroupId'' = Inr gid"
    and "\<not> isl (client
           (trace w @ [Call IoTClient CreateThingGroupCommand
              (JObj [(''thingGroupName'', JStr ''G1''),
                     (''thingGroupProperties'',
                        JObj [(''thingGroupDescription'', JUndefined)])])])
           (add_thing_call (JStr ''G1'') (JStr ''arn:a'')))"
  shows "fst (thing_group_onCreate client ev w) =
           Inr \<lparr>PhysicalResourceId = gid,
                Data = [(''ThingGroupName'', JStr ''G1''),
                        (''ThingGroupArn'', arn),
                        (''ThingGroupId'', gid)]\<rparr>
       \<and> trace (snd (thing_group_onCreate client ev w)) =
           trace w
           @ [Call IoTClient CreateThingGroupCommand
                (JObj [(''thingGroupName'', JStr ''G1''),
                       (''thingGroupProperties'',
                          JObj [(''thingGroupDescription'', JUndefined)])]),
              Call IoTClient AddThingToThingGroupCommand
                (JObj [(''thingGroupName'', JStr ''G1''), (''thingArn'', JStr ''arn:a'')]),
              Call IoTClient AddThingToThingGroupCommand
                (JObj [(''thingGroupName'', JStr ''G1''), (''thingArn'', JStr ''arn:b'')])]"
proof -
  have fc: "\<not> fail_create ev"
    by (simp add: fail_create_def resource_property_def assms(1))
  have props: "resource_property ev ''ThingGroupName'' = JStr ''G1''"
    "resource_property ev ''ThingGroupDescription'' = JUndefined"
    "resource_property ev ''ThingArnList'' = JArr [JStr ''arn:a'', JStr ''arn:b'']"
    by (simp_all add: resource_property_def assms(1))
  obtain r1 where r1: "client
           (trace w @ [Call IoTClient CreateThingGroupCommand
              (JObj [(''thingGroupName'', JStr ''G1''),
                     (''thingGroupProperties'',
                        JObj [(''thingGroupDescription'', JUndefined)])])])
           (Call IoTClient AddThingToThingGroupCommand
                (JObj [(''thingGroupName'', JStr ''G1''), (''thingArn'', JStr ''arn:a'')])) = Inr r1"
    using assms(5) by (cases "client
           (trace w @ [Call IoTClient CreateThingGroupCommand
              (JObj [(''thingGroupName'', JStr ''G1''),
                     (''thingGroupProperties'',
                        JObj [(''thingGroupDescription'', JUndefined)])])])
           (Call IoTClient AddThingToThingGroupCommand
                (JObj [(''thingGroupName'', JStr ''G1''), (''thingArn'', JStr ''arn:a'')]))")
       (simp_all add: add_thing_call_def)
  show ?thesis
    using fc assms(2,3,4) r1
    by (simp add: thing_group_onCreate_def run_body_def create_thing_group_block_def
        add_things_block_def add_thing_call_def for_of_def prog_defs props Let_def
        split: sum.splits prod.splits)
qed

theorem group_create_scenario_witness:
  "ResourceProperties group_event =
     [(''ThingGroupName'', JStr ''G1''),
      (''ThingArnList'', JArr [JStr ''arn:a'', JStr ''arn:b''])]
   \<and> fst (thing_group_onCreate fake_client group_event initial_world) =
           Inr \<lparr>PhysicalResourceId = JStr ''id-1'',
                Data = [(''ThingGroupName'', JStr ''G1''),
                        (''ThingGroupArn'', JStr ''arn:group-1''),
                        (''ThingGroupId'', JStr ''id-1'')]\<rparr>
   \<and> trace (snd (thing_group_onCreate fake_client group_event initial_world)) =
           [Call IoTClient CreateThingGroupCommand
                (JObj [(''thingGroupName'', JStr ''G1''),
                       (''thingGroupProperties'',
                          JObj [(''thingGroupDescription'', JUndefined)])]),
            Call IoTClient AddThingToThingGroupCommand
                (JObj [(''thingGroupName'', JStr ''G1''), (''thingArn'', JStr ''arn:a'')]),
            Call IoTClient AddThingToThingGroupCommand
                (JObj [(''thingGroupName'', JStr ''G1''), (''thingArn'', JStr ''arn:b'')])]"
  using group_create_scenario [of group_event fake_client initial_world
      "JObj [(''thingGroupArn'', JStr ''arn:group-1''), (''thingGroupId'', JStr ''id-1'')]"
      "JStr ''arn:group-1''" "JStr ''id-1''"]
  by (simp add: fixture_defs add_thing_call_def)

section \<open>Teardown order of the device identity bundle\<close>

lemma attempted_take: "\<exists>n. attempted client tr cs = take n cs"
proof (induction cs arbitrary: tr)
  case Nil
  show ?case by simp
next
  case (Cons c cs)
  show ?case
  proof (cases "isl (client tr c)")
    case True
    then have "attempted client tr (c # cs) = take 1 (c # cs)" by simp
    then show ?thesis by blast
  next
    case False
    obtain n where "attempted client (tr @ [c]) cs = take n cs"
      using Cons.IH by blast
    with False have "attempted client tr (c # cs) = take (Suc n) (c # cs)" by simp
    then show ?thesis by blast
  qed
qed

lemma attempted_all_accepted:
  "\<forall>tr' c. \<not> isl (client tr' c) \<Longrightarrow> attempted client tr cs = cs"
  by (induction cs arbitrary: tr) simp_all

lemma issues_only_ret: "issues_only S (ret x)"
  by (simp add: issues_only_def ret_def)

lemma issues_only_throw: "issues_only S (throw e)"
  by (simp add: issues_only_def throw_def)

lemma issues_only_lift: "issues_only S (lift r)"
  by (simp add: issues_only_def lift_def)

lemma issues_only_send: "command c \<in> S \<Longrightarrow> issues_only S (send client c)"
  by (simp add: issues_only_def send_def)

lemma issues_only_bind:
  assumes "issues_only S m" and "\<And>x. issues_only S (f x)"
  shows "issues_only S (bind m f)"
  unfolding issues_only_def
proof (intro allI)
  fix l w
  obtain r l1 w1 where run: "m l w = (r, l1, w1)"
    by (cases "m l w") auto
  obtain ext1 where e1: "trace w1 = trace w @ ext1" "command ` set ext1 \<subseteq> S"
    using assms(1) run unfolding issues_only_def by (metis snd_conv)
  show "\<exists>ext. trace (snd (snd (bind m f l w))) = trace w @ ext \<and> command ` set ext \<subseteq> S"
  proof (cases r)
    case (Inl e)
    with run e1 show ?thesis by (auto simp: bind_def)
  next
    case (Inr x)
    obtain ext2 where e2: "trace (snd (snd (f x l1 w1))) = trace w1 @ ext2"
        "command ` set ext2 \<subseteq> S"
      using assms(2) unfolding issues_only_def by blast
    have "trace (snd (snd (bind m f l w))) = trace w @ (ext1 @ ext2)"
      using run Inr e1 e2 by (simp add: bind_def)
    moreover have "command ` set (ext1 @ ext2) \<subseteq> S"
      using e1 e2 by auto
    ultimately show ?thesis by blast
  qed
qed

lemma issues_only_seq:
  "issues_only S m \<Longrightarrow> issues_only S n \<Longrightarrow> issues_only S (seq m n)"
  by (simp add: seq_def issues_only_bind)

lemma issues_only_try_catch:
  assumes "issues_only S m" and "\<And>e. issues_only S (h e)"
  shows "issues_only S (try_catch m h)"
  unfolding issues_only_def
proof (intro allI)
  fix l w
  obtain r l1 w1 where run: "m l w = (r, l1, w1)"
    by (cases "m l w") auto
  obtain ext1 where e1: "trace w1 = trace w @ ext1" "command ` set ext1 \<subseteq> S"
    using assms(1) run unfolding issues_only_def by (metis snd_conv)
  show "\<exists>ext. trace (snd (snd (try_catch m h l w))) = trace w @ ext \<and> command ` set ext \<subseteq> S"
  proof (cases r)
    case (Inr x)
    with run e1 show ?thesis by (auto simp: try_catch_def)
  next
    case (Inl e)
    obtain ext2 where e2: "trace (snd (snd (h e l1 w1))) = trace w1 @ ext2"
        "command ` set ext2 \<subseteq> S"
      using assms(2) unfolding issues_only_def by blast
    have "trace (snd (snd (try_catch m h l w))) = trace w @ (ext1 @ ext2)"
      using run Inl e1 e2 by (simp add: try_catch_def)
    moreover have "command ` set (ext1 @ ext2) \<subseteq> S"
      using e1 e2 by auto
    ultimately show ?thesis by blast
  qed
qed

lemma issues_only_if:
  "issues_only S m \<Longrightarrow> issues_only S n \<Longrightarrow> issues_only S (if b then m else n)"
  by simp

lemma issues_only_for_each:
  assumes "\<And>x. issues_only S (body x)"
  shows "issues_only S (for_each xs body)"
  by (induction xs) (simp_all add: issues_only_ret issues_only_seq assms)

lemma issues_only_for_of:
  assumes "\<And>x. issues_only S (body x)"
  shows "issues_only S (for_of v body)"
  by (simp add: for_of_def issues_only_bind issues_only_lift issues_only_for_each assms)

lemma issues_only_template_literal: "issues_only S (template_literal vs)"
  using template_literal_state [of vs] by (simp add: issues_only_def)

lemmas issues_only_intros = issues_only_ret issues_only_throw issues_only_lift
  issues_only_send issues_only_bind issues_only_seq issues_only_try_catch issues_only_if
  issues_only_for_of issues_only_template_literal

lemma thing_cert_policy_unwind_issues:
  "issues_only (- {DeleteThingCommand})
     (thing_cert_policy_unwind client arn tn pn pid k1 k2)"
  unfolding thing_cert_policy_unwind_def delete_parameters_block_def
    prune_policy_versions_block_def detach_policy_targets_block_def delete_policy_block_def
    detach_certificate_block_def delete_certificate_block_def detach_thing_principals_block_def
  by (intro issues_only_intros) simp_all

lemma delete_thing_block_trace:
  "trace (snd (snd (delete_thing_block client n l w))) =
     trace w @ [Call IoTClient DeleteThingCommand (JObj [(''thingName'', n)])]"
  using template_literal_state [of "[n]" l]
  by (auto simp: delete_thing_block_def try_catch_def bind_def send_def ret_def
      split: sum.splits prod.splits)

lemma delete_thing_block_run:
  assumes "\<not> isl (to_string n)"
  shows "\<exists>l' w'. delete_thing_block client n l w = (Inr (), l', w')
     \<and> trace w' = trace w @ [Call IoTClient DeleteThingCommand (JObj [(''thingName'', n)])]"
proof -
  obtain r l' w' where run: "delete_thing_block client n l w = (r, l', w')"
    by (cases "delete_thing_block client n l w") auto
  have "r = Inr ()"
    using delete_thing_block_ok [OF assms, of client l w] run by simp
  moreover have "trace w' = trace w @ [Call IoTClient DeleteThingCommand (JObj [(''thingName'', n)])]"
    using delete_thing_block_trace [of client n l w] run by simp
  ultimately show ?thesis using run by simp
qed

text \<open>
  Claim C4, as stated, fails. The IotPolicyName of this Delete event is a JSON object
  with an own property named toString, and the client rejects every call. The catch
  clause of the second try block cannot convert the policy name for its log message:
  Delete throws after two calls, and the deletion of the thing is never attempted.
\<close>

theorem delete_thing_not_attempted:
  "fst (thing_cert_policy_onDelete rejecting_client
          (with_property (thing_event ''Delete'') ''IotPolicyName'' unprintable) initial_world) =
     Inl TypeError
   \<and> map command
        (trace (snd (thing_cert_policy_onDelete rejecting_client
           (with_property (thing_event ''Delete'') ''IotPolicyName'' unprintable)
           initial_world))) =
      [DeleteParametersCommand, ListPolicyVersionsCommand]"
  by (simp add: thing_cert_policy_onDelete_def thing_cert_policy_unwind_def run_body_def
      delete_parameters_block_def prune_policy_versions_block_def fixture_defs value_defs
      prog_defs Let_def)

text \<open>
  Claim C4, amended. Whatever the client answers, no call of a Delete of the device
  identity bundle follows a deletion of the thing: every detach call that is issued comes
  before it. Provided StackName, ThingName, IotPolicyName and CertificateArn have a
  string conversion, the calls of the invocation end with the deletion of the thing,
  whether or not an earlier unwind step failed, and no earlier call is a deletion of the
  thing.
\<close>

theorem delete_thing_is_last:
  "(\<exists>ext. trace (snd (thing_cert_policy_onDelete client ev w)) = trace w @ ext
          \<and> DeleteThingCommand \<notin> command ` set (butlast ext))
   \<and> (converts ev [''StackName'', ''ThingName'', ''IotPolicyName'', ''CertificateArn''] \<longrightarrow>
       (\<exists>pre. trace (snd (thing_cert_policy_onDelete client ev w)) =
                trace w @ pre
                @ [Call IoTClient DeleteThingCommand
                     (JObj [(''thingName'', resource_property ev ''ThingName'')])]
             \<and> DeleteThingCommand \<notin> command ` set pre))"
proof (intro conjI impI)
  let ?sn = "resource_property ev ''StackName''"
  let ?tn = "resource_property ev ''ThingName''"
  let ?pn = "resource_property ev ''IotPolicyName''"
  let ?arn = "resource_property ev ''CertificateArn''"
  let ?del = "Call IoTClient DeleteThingCommand (JObj [(''thingName'', ?tn)])"
  have unwind: "\<exists>r l1 w1 pre.
      thing_cert_policy_unwind client ?arn ?tn ?pn (event.PhysicalResourceId ev) k1 k2 no_vars w
        = (r, l1, w1)
      \<and> trace w1 = trace w @ pre \<and> DeleteThingCommand \<notin> command ` set pre" for k1 k2
  proof -
    obtain r l1 w1 where u: "thing_cert_policy_unwind client ?arn ?tn ?pn
        (event.PhysicalResourceId ev) k1 k2 no_vars w = (r, l1, w1)"
      by (cases "thing_cert_policy_unwind client ?arn ?tn ?pn
        (event.PhysicalResourceId ev) k1 k2 no_vars w") auto
    obtain pre where "trace w1 = trace w @ pre" "command ` set pre \<subseteq> - {DeleteThingCommand}"
      using thing_cert_policy_unwind_issues [of client ?arn ?tn ?pn
          "event.PhysicalResourceId ev" k1 k2] u
      unfolding issues_only_def by (metis snd_conv)
    with u show ?thesis by auto
  qed
  show "\<exists>ext. trace (snd (thing_cert_policy_onDelete client ev w)) = trace w @ ext
          \<and> DeleteThingCommand \<notin> command ` set (butlast ext)"
  proof (cases "parameter_name ?sn ?tn ''private_key''")
    case (Inl e)
    then have "snd (thing_cert_policy_onDelete client ev w) = w"
      by (simp add: thing_cert_policy_onDelete_def Let_def run_body_def bind_apply lift_apply)
    then show ?thesis by simp
  next
    case k1: (Inr k1)
    show ?thesis
    proof (cases "parameter_name ?sn ?tn ''certificate_pem''")
      case (Inl e)
      then have "snd (thing_cert_policy_onDelete client ev w) = w"
        using k1
        by (simp add: thing_cert_policy_onDelete_def Let_def run_body_def bind_apply lift_apply)
      then show ?thesis by simp
    next
      case k2: (Inr k2)
      obtain r l1 w1 pre where u: "thing_cert_policy_unwind client ?arn ?tn ?pn
          (event.PhysicalResourceId ev) k1 k2 no_vars w = (r, l1, w1)"
        and pre: "trace w1 = trace w @ pre" "DeleteThingCommand \<notin> command ` set pre"
        using unwind by blast
      show ?thesis
      proof (cases r)
        case (Inl e)
        then have "snd (thing_cert_policy_onDelete client ev w) = w1"
          using k1 k2 u
          by (simp add: thing_cert_policy_onDelete_def Let_def run_body_def bind_apply
              lift_apply seq_apply)
        moreover have "DeleteThingCommand \<notin> command ` set (butlast pre)"
          using pre(2) in_set_butlastD by fastforce
        ultimately show ?thesis using pre(1) by simp
      next
        case (Inr x)
        have "trace (snd (thing_cert_policy_onDelete client ev w)) =
                trace (snd (snd (delete_thing_block client ?tn l1 w1)))"
          using k1 k2 u Inr
          by (simp add: thing_cert_policy_onDelete_def Let_def run_body_def bind_apply
              lift_apply seq_apply ret_def split: prod.splits sum.splits)
        then have "trace (snd (thing_cert_policy_onDelete client ev w)) =
                trace w @ (pre @ [?del])"
          using pre(1) by (simp add: delete_thing_block_trace)
        moreover have "DeleteThingCommand \<notin> command ` set (butlast (pre @ [?del]))"
          using pre(2) by simp
        ultimately show ?thesis by blast
      qed
    qed
  qed
  show "\<exists>pre. trace (snd (thing_cert_policy_onDelete client ev w)) =
                trace w @ pre @ [?del]
             \<and> DeleteThingCommand \<notin> command ` set pre"
    if conv: "converts ev [''StackName'', ''ThingName'', ''IotPolicyName'', ''CertificateArn'']"
  proof -
    have c: "\<not> isl (to_string ?sn)" "\<not> isl (to_string ?tn)" "\<not> isl (to_string ?pn)"
      "\<not> isl (to_string ?arn)"
      using conv by (simp_all add: converts_Cons)
    obtain k1 where k1: "parameter_name ?sn ?tn ''private_key'' = Inr k1"
      using parameter_name_ok c(1,2) by blast
    obtain k2 where k2: "parameter_name ?sn ?tn ''certificate_pem'' = Inr k2"
      using parameter_name_ok c(1,2) by blast
    obtain r l1 w1 pre where u: "thing_cert_policy_unwind client ?arn ?tn ?pn
          (event.PhysicalResourceId ev) k1 k2 no_vars w = (r, l1, w1)"
      and pre: "trace w1 = trace w @ pre" "DeleteThingCommand \<notin> command ` set pre"
      using unwind by blast
    have r: "r = Inr ()"
      using thing_cert_policy_unwind_ok [OF c(4) c(2) c(3), of client
          "event.PhysicalResourceId ev" k1 k2 no_vars w] u by simp
    obtain l2 w2 where d: "delete_thing_block client ?tn l1 w1 = (Inr (), l2, w2)"
      and t2: "trace w2 = trace w1 @ [?del]"
      using delete_thing_block_run [OF c(2)] by blast
    have "snd (thing_cert_policy_onDelete client ev w) = w2"
      using k1 k2 u r d
      by (simp add: thing_cert_policy_onDelete_def Let_def run_body_def bind_apply
          lift_apply seq_apply ret_def)
    with pre t2 show ?thesis by auto
  qed
qed

theorem delete_thing_is_last_witness:
  "converts (thing_event ''Delete'')
     [''StackName'', ''ThingName'', ''IotPolicyName'', ''CertificateArn'']
   \<and> last (trace (snd (thing_cert_policy_onDelete rejecting_client (thing_event ''Delete'')
        initial_world))) =
       Call IoTClient DeleteThingCommand (JObj [(''thingName'', JStr ''thing-1'')])"
proof -
  have c: "converts (thing_event ''Delete'')
     [''StackName'', ''ThingName'', ''IotPolicyName'', ''CertificateArn'']"
    by (simp add: fixture_defs value_defs)
  show ?thesis
    using c delete_thing_is_last [of rejecting_client "thing_event ''Delete''" initial_world]
    by (auto simp: thing_event_def resource_property_def initial_world_def)
qed

section \<open>addComponent\<close>

lemma define_property_keeps:
  "map_of object k = Some v \<Longrightarrow> map_of (define_property object k' v') k = Some v"
  by (simp add: define_property_def)

lemma add_one_keeps:
  "map_of (componentList d) k = Some v \<Longrightarrow> map_of (componentList (add_one c k' d)) k = Some v"
  by (simp add: add_one_def define_property_keeps split: option.splits)

lemma fold_add_one_keeps:
  "map_of (componentList d) k = Some v
   \<Longrightarrow> map_of (componentList (fold (add_one c) ks d)) k = Some v"
  by (induction ks arbitrary: d) (simp_all add: add_one_keeps)

lemma addComponent_keeps_existing:
  "component_of d k = Some v \<Longrightarrow> component_of (addComponent c d) k = Some v"
  by (simp add: component_of_def addComponent_def fold_add_one_keeps)

lemma js_in_add_one_other:
  "k \<noteq> k' \<Longrightarrow> js_in k (componentList (add_one c k' d)) = js_in k (componentList d)"
  by (auto simp: add_one_def js_in_def define_property_def split: option.splits)

lemma fold_add_one_adds:
  "k \<in> set ks \<Longrightarrow> \<not> js_in k (componentList d) \<Longrightarrow> map_of c k = Some v
   \<Longrightarrow> map_of (componentList (fold (add_one c) ks d)) k = Some v"
proof (induction ks arbitrary: d)
  case Nil
  then show ?case by simp
next
  case (Cons x ks)
  show ?case
  proof (cases "x = k")
    case True
    have "map_of (componentList d) k = None"
      using Cons.prems(2) by (auto simp: js_in_def map_of_eq_None_iff)
    then have "map_of (componentList (add_one c k d)) k = Some v"
      using Cons.prems by (simp add: add_one_def define_property_def map_add_def)
    then show ?thesis
      using True by (simp add: fold_add_one_keeps)
  next
    case False
    then have "\<not> js_in k (componentList (add_one c x d))"
      using Cons.prems(2) by (simp add: js_in_add_one_other)
    moreover have "k \<in> set ks" using Cons.prems(1) False by simp
    ultimately show ?thesis
      using Cons.IH Cons.prems(3) by simp
  qed
qed

lemma addComponent_adds_new:
  assumes "map_of c k = Some v" and "\<not> js_in k (componentList d)"
  shows "component_of (addComponent c d) k = Some v"
proof -
  have "(k, v) \<in> set c"
    using assms(1) by (rule map_of_SomeD)
  then have "k \<in> set (object_keys c)"
    by (force simp: object_keys_def)
  then show ?thesis
    using assms by (simp add: component_of_def addComponent_def fold_add_one_adds)
qed

lemma addComponent_flags_duplicate:
  assumes "k \<in> set (object_keys c)" and "js_in k (componentList d)"
  shows "exitCode (process (addComponent c d)) = Some 1"
proof -
  have flagged: "exitCode (process (fold (add_one c) ks d')) = Some 1"
    if "exitCode (process d') = Some 1" for ks d'
    using that by (induction ks arbitrary: d') (simp_all add: add_one_def split: option.splits)
  have js_in_mono: "js_in k (componentList (add_one c x d'))" if "js_in k (componentList d')"
    for x d'
    using that by (auto simp: add_one_def js_in_def define_property_def split: option.splits)
  have "exitCode (process (fold (add_one c) ks d')) = Some 1"
    if "k \<in> set ks" "js_in k (componentList d')" for ks d'
    using that
  proof (induction ks arbitrary: d')
    case Nil
    then show ?case by simp
  next
    case (Cons x ks)
    show ?case
    proof (cases "x = k")
      case True
      then have "exitCode (process (add_one c x d')) = Some 1"
        using Cons.prems(2) by (simp add: add_one_def)
      then show ?thesis by (simp add: flagged)
    next
      case False
      then show ?thesis
        using Cons.IH [of "add_one c x d'"] Cons.prems js_in_mono by simp
    qed
  qed
  then show ?thesis
    using assms by (simp add: addComponent_def)
qed

text \<open>
  Claim C10. An existing component is never overwritten and a duplicate is flagged
  (\<open>addComponent_keeps_existing\<close>, \<open>addComponent_flags_duplicate\<close>), and a new key is
  added unless the \<^verbatim>\<open>in\<close> operator finds it on the prototype chain
  (\<open>addComponent_adds_new\<close>). At the key "toString" the code departs from the claim:
  the deployment has no such component, and addComponent reports a duplicate and does
  not add it.
\<close>

theorem inherited_name_is_rejected:
  "component_of \<lparr>componentList = [], process = initial_world\<rparr> ''toString'' = None
   \<and> addComponent [(''toString'', \<lparr>componentVersion = ''1.0.0'', configurationUpdate = None\<rparr>)]
        \<lparr>componentList = [], process = initial_world\<rparr>
      = \<lparr>componentList = [], process = \<lparr>trace = [], exitCode = Some 1\<rparr>\<rparr>"
  by (simp add: addComponent_def object_keys_def add_one_def js_in_def
      object_prototype_names_def component_of_def initial_world_def)

section \<open>Detaching the discovered attachments\<close>

text \<open>
  Claim C6. At this input the code departs from the claim. The event names the thing
  "thing-1"; the client answers the list-things-for-principal call with the thing
  "thing-2". The detach call that follows names "thing-1", the event's property, and no
  call of the invocation names "thing-2". The policy returned by the
  list-attached-policies call, "policy-2", is detached by its own name.
\<close>

theorem detach_names_the_property:
  "trace (snd (thing_cert_policy_onDelete fake_client (thing_event ''Delete'') initial_world)) =
     [Call SSMClient DeleteParametersCommand
        (JObj [(''Names'', JArr [JStr ''/stack/thing-1/private_key'',
                                 JStr ''/stack/thing-1/certificate_pem''])]),
      Call IoTClient ListPolicyVersionsCommand (JObj [(''policyName'', JStr ''policy-1'')]),
      Call IoTClient DeletePolicyVersionCommand
        (JObj [(''policyName'', JStr ''policy-1''), (''policyVersionId'', JStr ''1'')]),
      Call IoTClient ListTargetsForPolicyCommand (JObj [(''policyName'', JStr ''policy-1'')]),
      Call IoTClient DetachPolicyCommand
        (JObj [(''policyName'', JStr ''policy-1''), (''target'', JStr ''arn:cert-1'')]),
      Call IoTClient DeletePolicyCommand (JObj [(''policyName'', JStr ''policy-1'')]),
      Call IoTClient ListPrincipalThingsCommand (JObj [(''principal'', JStr ''arn:cert-1'')]),
      Call IoTClient DetachThingPrincipalCommand
        (JObj [(''thingName'', JStr ''thing-1''), (''principal'', JStr ''arn:cert-1'')]),
      Call IoTClient ListAttachedPoliciesCommand (JObj [(''target'', JStr ''arn:cert-1'')]),
      Call IoTClient DetachPolicyCommand
        (JObj [(''policyName'', JStr ''policy-2''), (''target'', JStr ''arn:cert-1'')]),
      Call IoTClient UpdateCertificateCommand
        (JObj [(''certificateId'', JStr ''cert-1''), (''newStatus'', JStr ''REVOKED'')]),
      Call IoTClient DeleteCertificateCommand (JObj [(''certificateId'', JStr ''cert-1'')]),
      Call IoTClient ListThingPrincipalsCommand (JObj [(''thingName'', JStr ''thing-1'')]),
      Call IoTClient DeleteThingCommand (JObj [(''thingName'', JStr ''thing-1'')])]
   \<and> fake_client
        [Call SSMClient DeleteParametersCommand
           (JObj [(''Names'', JArr [JStr ''/stack/thing-1/private_key'',
                                    JStr ''/stack/thing-1/certificate_pem''])]),
         Call IoTClient ListPolicyVersionsCommand (JObj [(''policyName'', JStr ''policy-1'')]),
         Call IoTClient DeletePolicyVersionCommand
           (JObj [(''policyName'', JStr ''policy-1''), (''policyVersionId'', JStr ''1'')]),
         Call IoTClient ListTargetsForPolicyCommand (JObj [(''policyName'', JStr ''policy-1'')]),
         Call IoTClient DetachPolicyCommand
           (JObj [(''policyName'', JStr ''policy-1''), (''target'', JStr ''arn:cert-1'')]),
         Call IoTClient DeletePolicyCommand (JObj [(''policyName'', JStr ''policy-1'')])]
        (Call IoTClient ListPrincipalThingsCommand (JObj [(''principal'', JStr ''arn:cert-1'')]))
      = Inr (JObj [(''things'', JArr [JStr ''thing-2''])])"
  by (simp add: thing_cert_policy_onDelete_def thing_cert_policy_unwind_def run_body_def
      delete_parameters_block_def prune_policy_versions_block_def
      detach_policy_targets_block_def delete_policy_block_def detach_certificate_block_def
      delete_certificate_block_def detach_thing_principals_block_def delete_thing_block_def
      for_of_def fixture_defs value_defs prog_defs Let_def)

end
